theory Spec2Isabelle
  imports Complex_Main "HOL-Library.Sublist" "HOL-Library.Word"
begin

section \<open>Azure AD SAML sign-in flow of azure2aws\<close>

text \<open>
  A shallow embedding of the package \<^verbatim>\<open>internal/provider/azuread\<close>: the main
  loop \<^verbatim>\<open>authenticate\<close> with its page handlers, the MFA begin/end sub-protocol, the
  form and configuration extractors, and the entry point \<^verbatim>\<open>Authenticate\<close>.

  What lies outside the repository is a parameter of the model (record \<open>env\<close>):
  the network (the answer to the k-th HTTP exchange), standard input, the HTML parser
  behind goquery, the JSON decoder, and URL parsing. Everything the Go code does with
  their results is written out. Effects are explicit: the record \<open>client\<close> is
  threaded through every call and records the requests issued, the sleeps, the
  console output, the number of lines read, the cookies received and the redirect
  setting.
\<close>

subsection \<open>Data model (types.go, provider.go)\<close>

text \<open>\<^verbatim>\<open>provider.LoginCredentials\<close>.\<close>

record login_credentials =
  Username :: string
  Password :: string
  MFAToken :: string

text \<open>\<^verbatim>\<open>UserProof\<close>: one MFA method advertised for the account.\<close>

record user_proof =
  up_AuthMethodID :: string
  up_Data :: string
  up_Display :: string
  up_IsDefault :: bool

text \<open>
  \<^verbatim>\<open>ConvergedResponse\<close>, the \<^verbatim>\<open>$Config\<close> object of a page. The polling
  intervals are \<^verbatim>\<open>map[string]float64\<close>; a finite float64 is a real number.
\<close>

record converged_response =
  URLGetCredentialType :: string
  ArrUserProofs :: "user_proof list"
  URLSkipMfaRegistration :: string
  OPerAuthPollingInterval :: "string \<rightharpoonup> real"
  URLBeginAuth :: string
  URLEndAuth :: string
  URLPost :: string
  SErrorCode :: string
  SErrTxt :: string
  SPOSTUsername :: string
  SFT :: string
  SFTName :: string
  SCtx :: string
  Hpgact :: int
  Hpgid :: int
  Pgid :: string
  APICanary :: string
  Canary :: string
  CorrelationID :: string
  SessionID :: string

text \<open>\<^verbatim>\<open>GetCredentialTypeRequest\<close>.\<close>

record get_credential_type_request =
  gq_Username :: string
  gq_IsOtherIdpSupported :: bool
  gq_CheckPhones :: bool
  gq_IsRemoteNGCSupported :: bool
  gq_IsCookieBannerShown :: bool
  gq_IsFidoSupported :: bool
  gq_OriginalRequest :: string
  gq_Country :: string
  gq_Forceotclogin :: bool
  gq_IsExternalFederationDisallowed :: bool
  gq_IsRemoteConnectSupported :: bool
  gq_FederationFlags :: int
  gq_IsSignup :: bool
  gq_FlowToken :: string
  gq_IsAccessPassSupported :: bool

text \<open>
  \<^verbatim>\<open>GetCredentialTypeResponse\<close>. Of the nested \<^verbatim>\<open>Credentials\<close> struct the
  fields of type \<^verbatim>\<open>interface{}\<close> are never read and are left out.
\<close>

record get_credential_type_response =
  gr_Username :: string
  gr_Display :: string
  gr_IfExistsResult :: int
  gr_IsUnmanaged :: bool
  gr_ThrottleStatus :: int
  gr_PrefCredential :: int
  gr_HasPassword :: bool
  gr_FederationRedirectURL :: string
  gr_FlowToken :: string
  gr_IsSignupDisallowed :: bool
  gr_APICanary :: string

text \<open>\<^verbatim>\<open>MFARequest\<close>.\<close>

record mfa_request =
  mq_AuthMethodID :: string
  mq_Method :: string
  mq_Ctx :: string
  mq_FlowToken :: string
  mq_SessionID :: string
  mq_AdditionalAuthData :: string

text \<open>
  \<^verbatim>\<open>MFAResponse\<close>. \<^verbatim>\<open>Message\<close> is an \<^verbatim>\<open>interface{}\<close> that is only
  printed; it is kept as the text it prints to, which is \<^verbatim>\<open><nil>\<close> for the nil
  interface of the zero value. \<^verbatim>\<open>Timestamp\<close> is never read.
\<close>

record mfa_response =
  Success :: bool
  ResultValue :: string
  Message :: string
  AuthMethodID :: string
  ErrCode :: int
  Retry :: bool
  FlowToken :: string
  Ctx :: string
  mr_SessionID :: string
  mr_CorrelationID :: string
  Entropy :: int

text \<open>The MFA method ids.\<close>

definition MFAPhoneAppOTP :: string where
  "MFAPhoneAppOTP = ''PhoneAppOTP''"

definition MFAPhoneAppNotification :: string where
  "MFAPhoneAppNotification = ''PhoneAppNotification''"

definition MFAOneWaySMS :: string where
  "MFAOneWaySMS = ''OneWaySMS''"

definition MFATwoWayVoiceMobile :: string where
  "MFATwoWayVoiceMobile = ''TwoWayVoiceMobile''"

subsection \<open>HTTP exchanges\<close>

text \<open>
  \<^verbatim>\<open>url.Values\<close> built with \<^verbatim>\<open>Set\<close> only holds one value per key: an association
  list with distinct keys. \<^verbatim>\<open>Set\<close> replaces the value of a key that is present and
  adds the key otherwise. A request body is kept as the value that is encoded
  (\<^verbatim>\<open>Values.Encode\<close>, \<^verbatim>\<open>json.Marshal\<close>), not as the encoded text.
\<close>

type_synonym url_values = "(string \<times> string) list"

fun values_Set :: "string \<Rightarrow> string \<Rightarrow> url_values \<Rightarrow> url_values" where
  "values_Set k v [] = [(k, v)]"
| "values_Set k v ((k', v') # kvs) =
     (if k' = k then (k, v) # kvs else (k', v') # values_Set k v kvs)"

datatype http_method = GET | POST

datatype request_body =
    NoBody
  | FormBody url_values
  | CredentialTypeBody get_credential_type_request
  | MFABody mfa_request

record http_request =
  rq_method :: http_method
  rq_url :: string
  rq_headers :: "(string \<times> string) list"
  rq_body :: request_body

text \<open>
  A response: the URL of the request that produced it (\<^verbatim>\<open>res.Request.URL\<close>, the last
  one after redirects), the body (\<open>None\<close> when reading it fails) and the cookies it
  sets.
\<close>

record http_response =
  rs_request_url :: string
  rs_body :: "string option"
  rs_cookies :: "string list"

text \<open>Console output of the flow.\<close>

datatype console_output =
    Prompt string
  | PhoneApprovalRequired
  | PhoneApprovalNumberMatch int

text \<open>
  The errors of the package. \<open>Wrap msg e\<close> is \<^verbatim>\<open>fmt.Errorf("msg: %w", e)\<close>;
  the other constructors are the errors created in place, with the values their
  messages carry.
\<close>

datatype error =
    TransportError string
  | NewRequestError
  | BodyReadError
  | HTMLParseError
  | JSONDecodeError
  | ReadInputError
  | CredentialsNil
  | UsernameRequired
  | PasswordRequired
  | ConfigNotFound
  | FormNotFound
  | ADFSSubmitURLNotFound
  | SAMLRequestURLNotFound
  | FormURLNotFound
  | LoginError string string
  | AuthenticationError string string
  | UnknownAuthenticationState
  | NoMFAMethods
  | MFABeginAuthFailed string
  | MFAError int string
  | MFAAuthenticationFailed
  | IndexOutOfRange
  | Wrap string error

subsection \<open>HTML documents\<close>

text \<open>
  The tree that \<^verbatim>\<open>goquery.NewDocumentFromReader\<close> builds. Attributes are in source
  order, and an attribute written twice is kept twice: \<^verbatim>\<open>Attr\<close> returns the first one
  of a name, while an attribute selector looks at all of them.
\<close>

datatype html_node =
    Element string "(string \<times> string) list" "html_node list"
  | TextNode string

subsection \<open>The world outside the package\<close>

record env =
  responses :: "nat \<Rightarrow> error + http_response"
  read_line :: "nat \<Rightarrow> string option"
  parse_html :: "string \<Rightarrow> html_node option"
  json_converged :: "string \<Rightarrow> converged_response option"
  json_credential_type :: "string \<Rightarrow> get_credential_type_response option"
  json_mfa :: "string \<Rightarrow> mfa_response option"
  url_parse_ok :: "string \<Rightarrow> bool"
  resolve_reference :: "string \<Rightarrow> string \<Rightarrow> string"
  user_agent :: string

text \<open>
  \<^item> \<open>responses env k\<close>: what \<^verbatim>\<open>http.Client.Do\<close> returns for the k-th request
    issued (counting from 0): a transport error or a response.
  \<^item> \<open>read_line env k\<close>: the k-th line read from standard input, white space
    trimmed; \<open>None\<close> when the read fails.
  \<^item> \<open>parse_html\<close>: \<^verbatim>\<open>goquery.NewDocumentFromReader\<close> (\<open>None\<close>: its error).
  \<^item> \<open>json_converged\<close>, \<open>json_credential_type\<close>, \<open>json_mfa\<close>:
    \<^verbatim>\<open>encoding/json\<close> decoding into the three response structs (\<open>None\<close>: its error).
  \<^item> \<open>url_parse_ok\<close>: \<^verbatim>\<open>url.Parse\<close> succeeds; \<open>resolve_reference base ref\<close>:
    \<^verbatim>\<open>base.ResolveReference(ref).String()\<close>.
  \<^item> \<open>user_agent\<close>: the identity string, which names the platform.
\<close>

text \<open>The state of the client and the trace of its effects.\<close>

record client =
  baseURL :: string
  appID :: string
  follow_redirect :: bool
  jar :: "string list"
  sent :: "http_request list"
  slept :: "int list"
  printed :: "console_output list"
  lines_read :: nat

subsection \<open>Library functions the flow relies on\<close>

text \<open>\<^verbatim>\<open>strings.Contains s substr\<close>: \<open>substr\<close> occurs in \<open>s\<close> as a contiguous run.\<close>

fun contains :: "string \<Rightarrow> string \<Rightarrow> bool" where
  "contains [] substr = (substr = [])"
| "contains (c # cs) substr = (prefix substr (c # cs) \<or> contains cs substr)"

text \<open>\<^verbatim>\<open>fmt.Sprint\<close> of an \<^verbatim>\<open>int\<close>: its decimal digits.\<close>

function string_of_nat :: "nat \<Rightarrow> string" where
  "string_of_nat n =
     (if n < 10 then [char_of (48 + n)]
      else string_of_nat (n div 10) @ [char_of (48 + n mod 10)])"
  by pat_completeness auto
termination
  by (relation "measure id") auto

definition Sprint :: "int \<Rightarrow> string" where
  "Sprint i = (if i < 0 then CHR ''-'' # string_of_nat (nat (- i)) else string_of_nat (nat i))"

text \<open>
  goquery selections. \<open>descendants n\<close> lists the nodes below \<open>n\<close> in document
  order, which is the order of \<^verbatim>\<open>Find\<close>; the three selectors the package uses are
  \<^verbatim>\<open>tag\<close>, \<^verbatim>\<open>input[type='hidden']\<close> and \<^verbatim>\<open>input[name='SAMLResponse']\<close>.
\<close>

fun descendants :: "html_node \<Rightarrow> html_node list" where
  "descendants (TextNode t) = []"
| "descendants (Element t as cs) = concat (map (\<lambda>c. c # descendants c) cs)"

fun Attr :: "html_node \<Rightarrow> string \<Rightarrow> string option" where
  "Attr (TextNode t) k = None"
| "Attr (Element t as cs) k = map_of as k"

fun is_tag :: "string \<Rightarrow> html_node \<Rightarrow> bool" where
  "is_tag tg (TextNode t) = False"
| "is_tag tg (Element t as cs) = (t = tg)"

definition Find_tag :: "html_node \<Rightarrow> string \<Rightarrow> html_node list" where
  "Find_tag n tg = filter (is_tag tg) (descendants n)"

fun attributes :: "html_node \<Rightarrow> (string \<times> string) list" where
  "attributes (TextNode t) = []"
| "attributes (Element t as cs) = as"

text \<open>
  The selector \<^verbatim>\<open>tag[k='v']\<close>: an element of that tag matches when one of its
  attributes has the key \<open>k\<close> and the value \<open>v\<close>, whichever of the attributes of
  that key it is.
\<close>

definition Find_tag_attr :: "html_node \<Rightarrow> string \<Rightarrow> string \<Rightarrow> string \<Rightarrow> html_node list" where
  "Find_tag_attr n tg k v =
     filter (\<lambda>d. is_tag tg d \<and> list_ex (\<lambda>a. fst a = k \<and> snd a = v) (attributes d))
       (descendants n)"

text \<open>
  \<^verbatim>\<open>Selection.Attr\<close>: the attribute of the first node of the selection, with the flag
  that it exists.
\<close>

definition Selection_Attr :: "html_node list \<Rightarrow> string \<Rightarrow> string \<times> bool" where
  "Selection_Attr sel k =
     (case sel of
        [] \<Rightarrow> ('''', False)
      | n # _ \<Rightarrow> (case Attr n k of None \<Rightarrow> ('''', False) | Some v \<Rightarrow> (v, True)))"

subsection \<open>Transport (the HTTP client of package provider)\<close>

text \<open>\<^verbatim>\<open>http.NewRequest\<close> fails when the URL does not parse.\<close>

definition NewRequest :: "env \<Rightarrow> http_method \<Rightarrow> string \<Rightarrow> request_body \<Rightarrow> error + http_request" where
  "NewRequest e m u b =
     (if url_parse_ok e u
      then Inr \<lparr>rq_method = m, rq_url = u, rq_headers = [], rq_body = b\<rparr>
      else Inl NewRequestError)"

text \<open>
  \<^verbatim>\<open>Header.Set\<close>. Header names stand as the code writes them; the canonical
  spelling that \<^verbatim>\<open>net/http\<close> gives them is left out.
\<close>

definition Header_Set :: "string \<Rightarrow> string \<Rightarrow> http_request \<Rightarrow> http_request" where
  "Header_Set k v req = req\<lparr>rq_headers := values_Set k v (rq_headers req)\<rparr>"

text \<open>
  \<^verbatim>\<open>HTTPClient.Do\<close> stamps the identity header and performs the exchange: the request
  joins the trace, the answer is the next one of the environment, and the cookies of a
  response go to the jar.
\<close>

definition Do :: "env \<Rightarrow> client \<Rightarrow> http_request \<Rightarrow> (error + http_response) \<times> client" where
  "Do e c req =
     (let req' = Header_Set ''User-Agent'' (user_agent e) req;
          c' = c\<lparr>sent := sent c @ [req']\<rparr>
      in case responses e (length (sent c)) of
           Inl err \<Rightarrow> (Inl err, c')
         | Inr res \<Rightarrow> (Inr res, c'\<lparr>jar := jar c' @ rs_cookies res\<rparr>))"

definition Get :: "env \<Rightarrow> client \<Rightarrow> string \<Rightarrow> (error + http_response) \<times> client" where
  "Get e c u =
     (case NewRequest e GET u NoBody of
        Inl err \<Rightarrow> (Inl err, c)
      | Inr req \<Rightarrow> Do e c req)"

definition DisableFollowRedirect :: "client \<Rightarrow> client" where
  "DisableFollowRedirect c = c\<lparr>follow_redirect := False\<rparr>"

definition EnableFollowRedirect :: "client \<Rightarrow> client" where
  "EnableFollowRedirect c = c\<lparr>follow_redirect := True\<rparr>"

subsection \<open>Prompter\<close>

text \<open>
  \<^verbatim>\<open>prompter.String\<close>: print the prompt, read one line, and return the default for an
  empty line.
\<close>

definition PromptString :: "env \<Rightarrow> client \<Rightarrow> string \<Rightarrow> string \<Rightarrow> (error + string) \<times> client" where
  "PromptString e c prompt defaultValue =
     (let shown = (if defaultValue \<noteq> '''' then prompt @ '' ['' @ defaultValue @ '']: ''
                   else prompt @ '': '');
          c' = c\<lparr>printed := printed c @ [Prompt shown], lines_read := Suc (lines_read c)\<rparr>
      in case read_line e (lines_read c) of
           None \<Rightarrow> (Inl (Wrap ''failed to read input'' ReadInputError), c')
         | Some input \<Rightarrow> (Inr (if input = '''' then defaultValue else input), c'))"

subsection \<open>Content extractors\<close>

text \<open>\<^verbatim>\<open>fullURL\<close>.\<close>

definition fullURL :: "env \<Rightarrow> http_response \<Rightarrow> string \<Rightarrow> string" where
  "fullURL e res relativeURL =
     (if prefix ''http'' relativeURL then relativeURL
      else if \<not> url_parse_ok e relativeURL then relativeURL
      else resolve_reference e (rs_request_url res) relativeURL)"

text \<open>
  The match of the pattern \<^verbatim>\<open>\$Config=({[^;]+});\<close>, first group. From a position where
  \<^verbatim>\<open>$Config={\<close> starts, the text up to the next semicolon is the only candidate for
  the group: it must end with a closing brace and hold at least one character between
  the braces. The leftmost position that matches wins.
\<close>

fun findConfig :: "string \<Rightarrow> string option" where
  "findConfig [] = None"
| "findConfig (c # cs) =
     (if prefix ''$Config={'' (c # cs) then
        (let rest = drop 8 (c # cs);
             run = takeWhile (\<lambda>x. x \<noteq> CHR '';'') rest
         in if length run < length rest \<and> 3 \<le> length run \<and> last run = CHR ''}''
            then Some run else findConfig cs)
      else findConfig cs)"

text \<open>\<^verbatim>\<open>unmarshalEmbeddedJSON\<close> into a \<^verbatim>\<open>ConvergedResponse\<close>.\<close>

definition unmarshalEmbeddedJSON :: "env \<Rightarrow> string \<Rightarrow> error + converged_response" where
  "unmarshalEmbeddedJSON e html =
     (case findConfig html of
        None \<Rightarrow> Inl ConfigNotFound
      | Some js \<Rightarrow> (case json_converged e js of None \<Rightarrow> Inl JSONDecodeError | Some r \<Rightarrow> Inr r))"

text \<open>\<^verbatim>\<open>isHiddenForm\<close>.\<close>

definition isHiddenForm :: "env \<Rightarrow> string \<Rightarrow> bool" where
  "isHiddenForm e html =
     (case parse_html e html of
        None \<Rightarrow> False
      | Some doc \<Rightarrow>
          0 < length (Find_tag doc ''form'') \<and>
          (0 < length (Find_tag_attr doc ''input'' ''type'' ''hidden'') \<or>
           0 < length (Find_tag_attr doc ''input'' ''name'' ''SAMLResponse'')))"

text \<open>\<^verbatim>\<open>getSAMLAssertion\<close>.\<close>

definition getSAMLAssertion :: "env \<Rightarrow> string \<Rightarrow> string" where
  "getSAMLAssertion e html =
     (case parse_html e html of
        None \<Rightarrow> ''''
      | Some doc \<Rightarrow>
          (case Selection_Attr (Find_tag_attr doc ''input'' ''name'' ''SAMLResponse'') ''value'' of
             (samlResponse, exists) \<Rightarrow> if exists then samlResponse else ''''))"

text \<open>
  \<^verbatim>\<open>parseFormData\<close>: the first form of the page, its action, and one
  \<^verbatim>\<open>values.Set(name, value)\<close> for each of its inputs, in document order, that has a name
  attribute which is not empty.
\<close>

definition form_input :: "url_values \<Rightarrow> html_node \<Rightarrow> url_values" where
  "form_input values s =
     (case (Selection_Attr [s] ''name'', Selection_Attr [s] ''value'') of
        ((name, nameExists), (value, _)) \<Rightarrow>
          if nameExists \<and> name \<noteq> '''' then values_Set name value values else values)"

definition parseFormData :: "env \<Rightarrow> string \<Rightarrow> error + (url_values \<times> string)" where
  "parseFormData e html =
     (case parse_html e html of
        None \<Rightarrow> Inl (Wrap ''failed to parse HTML'' HTMLParseError)
      | Some doc \<Rightarrow>
          (case Find_tag doc ''form'' of
             [] \<Rightarrow> Inl FormNotFound
           | form # _ \<Rightarrow>
               (let action = fst (Selection_Attr [form] ''action'');
                    values = foldl form_input [] (Find_tag form ''input'')
                in Inr (values, action))))"

subsection \<open>State handlers of the sign-in pages\<close>

text \<open>\<^verbatim>\<open>requestGetCredentialType\<close>. The caller drops the raw response it also returns.\<close>

definition credentialTypeRequest ::
  "login_credentials \<Rightarrow> converged_response \<Rightarrow> get_credential_type_request" where
  "credentialTypeRequest creds convergedResp =
     \<lparr>gq_Username = Username creds,
      gq_IsOtherIdpSupported = True,
      gq_CheckPhones = False,
      gq_IsRemoteNGCSupported = False,
      gq_IsCookieBannerShown = False,
      gq_IsFidoSupported = False,
      gq_OriginalRequest = SCtx convergedResp,
      gq_Country = '''',
      gq_Forceotclogin = False,
      gq_IsExternalFederationDisallowed = False,
      gq_IsRemoteConnectSupported = False,
      gq_FederationFlags = 0,
      gq_IsSignup = False,
      gq_FlowToken = SFT convergedResp,
      gq_IsAccessPassSupported = False\<rparr>"

definition requestGetCredentialType ::
  "env \<Rightarrow> client \<Rightarrow> string \<Rightarrow> login_credentials \<Rightarrow> converged_response
     \<Rightarrow> (error + get_credential_type_response) \<times> client" where
  "requestGetCredentialType e c refererURL creds convergedResp =
     (case NewRequest e POST (URLGetCredentialType convergedResp)
             (CredentialTypeBody (credentialTypeRequest creds convergedResp)) of
        Inl err \<Rightarrow> (Inl (Wrap ''failed to create request'' err), c)
      | Inr req0 \<Rightarrow>
          (let req =
                 Header_Set ''Referer'' refererURL
                   (Header_Set ''hpgrequestid'' (SessionID convergedResp)
                     (Header_Set ''hpgid'' (Sprint (Hpgid convergedResp))
                       (Header_Set ''hpgact'' (Sprint (Hpgact convergedResp))
                         (Header_Set ''client-request-id'' (CorrelationID convergedResp)
                           (Header_Set ''canary'' (APICanary convergedResp)
                             (Header_Set ''Content-Type'' ''application/json'' req0))))))
           in case Do e c req of
                (Inl err, c1) \<Rightarrow> (Inl (Wrap ''request failed'' err), c1)
              | (Inr res, c1) \<Rightarrow>
                  (case rs_body res of
                     None \<Rightarrow> (Inl (Wrap ''failed to decode response'' BodyReadError), c1)
                   | Some b \<Rightarrow>
                       (case json_credential_type e b of
                          None \<Rightarrow> (Inl (Wrap ''failed to decode response'' JSONDecodeError), c1)
                        | Some credTypeResp \<Rightarrow> (Inr credTypeResp, c1)))))"

text \<open>\<^verbatim>\<open>processAuthentication\<close>: the direct password form, posted to the login URL.\<close>

definition loginFormValues :: "login_credentials \<Rightarrow> converged_response \<Rightarrow> url_values" where
  "loginFormValues creds convergedResp =
     values_Set ''passwd'' (Password creds)
       (values_Set ''loginfmt'' (Username creds)
         (values_Set ''login'' (Username creds)
           (values_Set ''ctx'' (SCtx convergedResp)
             (values_Set (SFTName convergedResp) (SFT convergedResp)
               (values_Set ''hpgrequestid'' (SessionID convergedResp)
                 (values_Set ''canary'' (Canary convergedResp) []))))))"

definition processAuthentication ::
  "env \<Rightarrow> client \<Rightarrow> string \<Rightarrow> string \<Rightarrow> login_credentials \<Rightarrow> converged_response
     \<Rightarrow> (error + http_response) \<times> client" where
  "processAuthentication e c loginURL refererURL creds convergedResp =
     (if SErrorCode convergedResp \<noteq> '''' \<and> SErrorCode convergedResp \<noteq> ''50058''
      then (Inl (LoginError (SErrorCode convergedResp) (SErrTxt convergedResp)), c)
      else
        (case NewRequest e POST loginURL (FormBody (loginFormValues creds convergedResp)) of
           Inl err \<Rightarrow> (Inl (Wrap ''failed to create login request'' err), c)
         | Inr req0 \<Rightarrow>
             (let req = Header_Set ''Referer'' refererURL
                          (Header_Set ''Content-Type'' ''application/x-www-form-urlencoded'' req0)
              in case Do e c req of
                   (Inl err, c1) \<Rightarrow> (Inl (Wrap ''login request failed'' err), c1)
                 | (Inr res, c1) \<Rightarrow> (Inr res, c1))))"

text \<open>\<^verbatim>\<open>processFederatedAuth\<close>: the ADFS form with the credentials laid over its fields.\<close>

definition federatedFormValues :: "login_credentials \<Rightarrow> url_values \<Rightarrow> url_values" where
  "federatedFormValues creds formValues =
     values_Set ''AuthMethod'' ''FormsAuthentication''
       (values_Set ''Password'' (Password creds)
         (values_Set ''UserName'' (Username creds) formValues))"

definition processFederatedAuth ::
  "env \<Rightarrow> client \<Rightarrow> string \<Rightarrow> login_credentials \<Rightarrow> (error + http_response) \<times> client" where
  "processFederatedAuth e c federationURL creds =
     (case Get e c federationURL of
        (Inl err, c1) \<Rightarrow> (Inl (Wrap ''failed to get federation URL'' err), c1)
      | (Inr res, c1) \<Rightarrow>
          (case rs_body res of
             None \<Rightarrow> (Inl (Wrap ''failed to read federation response'' BodyReadError), c1)
           | Some resBodyStr \<Rightarrow>
               (case parseFormData e resBodyStr of
                  Inl err \<Rightarrow> (Inl (Wrap ''failed to parse ADFS form'' err), c1)
                | Inr (formValues, formSubmitURL) \<Rightarrow>
                    if formSubmitURL = '''' then (Inl ADFSSubmitURLNotFound, c1)
                    else
                      (case NewRequest e POST (fullURL e res formSubmitURL)
                              (FormBody (federatedFormValues creds formValues)) of
                         Inl err \<Rightarrow> (Inl (Wrap ''failed to create ADFS login request'' err), c1)
                       | Inr req0 \<Rightarrow>
                           Do e c1 (Header_Set ''Content-Type''
                                      ''application/x-www-form-urlencoded'' req0)))))"

text \<open>\<^verbatim>\<open>processConvergedSignIn\<close>.\<close>

definition processConvergedSignIn ::
  "env \<Rightarrow> client \<Rightarrow> http_response \<Rightarrow> string \<Rightarrow> login_credentials
     \<Rightarrow> (error + http_response) \<times> client" where
  "processConvergedSignIn e c res resBodyStr creds =
     (case unmarshalEmbeddedJSON e resBodyStr of
        Inl err \<Rightarrow> (Inl (Wrap ''failed to parse ConvergedSignIn response'' err), c)
      | Inr convergedResp \<Rightarrow>
          (let loginURL = fullURL e res (URLPost convergedResp);
               refererURL = rs_request_url res
           in case requestGetCredentialType e c refererURL creds convergedResp of
                (Inl err, c1) \<Rightarrow> (Inl (Wrap ''failed to get credential type'' err), c1)
              | (Inr credTypeResp, c1) \<Rightarrow>
                  if gr_FederationRedirectURL credTypeResp \<noteq> ''''
                  then processFederatedAuth e c1 (gr_FederationRedirectURL credTypeResp) creds
                  else processAuthentication e c1 loginURL refererURL creds convergedResp))"

text \<open>\<^verbatim>\<open>processKmsiInterrupt\<close>: one exchange with redirects switched off.\<close>

definition processKmsiInterrupt ::
  "env \<Rightarrow> client \<Rightarrow> http_response \<Rightarrow> string \<Rightarrow> (error + http_response) \<times> client" where
  "processKmsiInterrupt e c res resBodyStr =
     (case unmarshalEmbeddedJSON e resBodyStr of
        Inl err \<Rightarrow> (Inl (Wrap ''failed to parse KMSI response'' err), c)
      | Inr convergedResp \<Rightarrow>
          (let formValues =
                 values_Set ''LoginOptions'' ''1''
                   (values_Set ''ctx'' (SCtx convergedResp)
                     (values_Set (SFTName convergedResp) (SFT convergedResp) []))
           in case NewRequest e POST (fullURL e res (URLPost convergedResp)) (FormBody formValues) of
                Inl err \<Rightarrow> (Inl (Wrap ''failed to create KMSI request'' err), c)
              | Inr req0 \<Rightarrow>
                  (case Do e (DisableFollowRedirect c)
                          (Header_Set ''Content-Type'' ''application/x-www-form-urlencoded'' req0) of
                     (r, c1) \<Rightarrow>
                       (let c2 = EnableFollowRedirect c1
                        in case r of
                             Inl err \<Rightarrow> (Inl (Wrap ''KMSI request failed'' err), c2)
                           | Inr newRes \<Rightarrow> (Inr newRes, c2)))))"

text \<open>\<^verbatim>\<open>processSAMLRequest\<close>: the form of the page, posted as it is.\<close>

definition processSAMLRequest ::
  "env \<Rightarrow> client \<Rightarrow> http_response \<Rightarrow> string \<Rightarrow> (error + http_response) \<times> client" where
  "processSAMLRequest e c res resBodyStr =
     (case parseFormData e resBodyStr of
        Inl err \<Rightarrow> (Inl (Wrap ''failed to parse SAML request form'' err), c)
      | Inr (formValues, formSubmitURL) \<Rightarrow>
          if formSubmitURL = '''' then (Inl SAMLRequestURLNotFound, c)
          else
            (case NewRequest e POST (fullURL e res formSubmitURL) (FormBody formValues) of
               Inl err \<Rightarrow> (Inl (Wrap ''failed to create SAML request'' err), c)
             | Inr req0 \<Rightarrow>
                 Do e c (Header_Set ''Content-Type'' ''application/x-www-form-urlencoded'' req0)))"

text \<open>\<^verbatim>\<open>reProcessForm\<close>: the same relay, to the action as the page writes it.\<close>

definition reProcessForm ::
  "env \<Rightarrow> client \<Rightarrow> string \<Rightarrow> (error + http_response) \<times> client" where
  "reProcessForm e c resBodyStr =
     (case parseFormData e resBodyStr of
        Inl err \<Rightarrow> (Inl (Wrap ''failed to parse form'' err), c)
      | Inr (formValues, formSubmitURL) \<Rightarrow>
          if formSubmitURL = '''' then (Inl FormURLNotFound, c)
          else
            (case NewRequest e POST formSubmitURL (FormBody formValues) of
               Inl err \<Rightarrow> (Inl (Wrap ''failed to create form request'' err), c)
             | Inr req0 \<Rightarrow>
                 Do e c (Header_Set ''Content-Type'' ''application/x-www-form-urlencoded'' req0)))"

subsection \<open>MFA sub-protocol\<close>

text \<open>
  The selection loop of \<^verbatim>\<open>processMFABeginAuth\<close>: start from \<^verbatim>\<open>mfas[0]\<close> and take the
  first entry flagged as default, if there is one.
\<close>

fun selectMFA :: "user_proof \<Rightarrow> user_proof list \<Rightarrow> user_proof" where
  "selectMFA mfa [] = mfa"
| "selectMFA mfa (v # vs) = (if up_IsDefault v then v else selectMFA mfa vs)"

text \<open>
  \<^verbatim>\<open>processMFABeginAuth\<close>. Indexing an empty list panics; the one caller checks the
  length first.
\<close>

definition processMFABeginAuth ::
  "env \<Rightarrow> client \<Rightarrow> user_proof list \<Rightarrow> converged_response \<Rightarrow> (error + mfa_response) \<times> client" where
  "processMFABeginAuth e c mfas convergedResp =
     (case mfas of
        [] \<Rightarrow> (Inl IndexOutOfRange, c)
      | mfa0 # _ \<Rightarrow>
          (let mfa = selectMFA mfa0 mfas;
               mfaReq = \<lparr>mq_AuthMethodID = up_AuthMethodID mfa,
                         mq_Method = ''BeginAuth'',
                         mq_Ctx = SCtx convergedResp,
                         mq_FlowToken = SFT convergedResp,
                         mq_SessionID = '''',
                         mq_AdditionalAuthData = ''''\<rparr>
           in case NewRequest e POST (URLBeginAuth convergedResp) (MFABody mfaReq) of
                Inl err \<Rightarrow> (Inl (Wrap ''failed to create MFA BeginAuth request'' err), c)
              | Inr req0 \<Rightarrow>
                  (case Do e c (Header_Set ''Content-Type'' ''application/json'' req0) of
                     (Inl err, c1) \<Rightarrow> (Inl (Wrap ''MFA BeginAuth request failed'' err), c1)
                   | (Inr res, c1) \<Rightarrow>
                       (case rs_body res of
                          None \<Rightarrow>
                            (Inl (Wrap ''failed to decode MFA BeginAuth response'' BodyReadError), c1)
                        | Some b \<Rightarrow>
                            (case json_mfa e b of
                               None \<Rightarrow>
                                 (Inl (Wrap ''failed to decode MFA BeginAuth response''
                                         JSONDecodeError), c1)
                             | Some mfaResp \<Rightarrow>
                                 if \<not> Success mfaResp
                                 then (Inl (MFABeginAuthFailed (Message mfaResp)), c1)
                                 else (Inr mfaResp, c1))))))"

text \<open>\<^verbatim>\<open>processMFAEndAuth\<close>.\<close>

definition processMFAEndAuth ::
  "env \<Rightarrow> client \<Rightarrow> mfa_request \<Rightarrow> converged_response \<Rightarrow> (error + mfa_response) \<times> client" where
  "processMFAEndAuth e c mfaReq convergedResp =
     (case NewRequest e POST (URLEndAuth convergedResp) (MFABody mfaReq) of
        Inl err \<Rightarrow> (Inl (Wrap ''failed to create MFA EndAuth request'' err), c)
      | Inr req0 \<Rightarrow>
          (case Do e c (Header_Set ''Content-Type'' ''application/json'' req0) of
             (Inl err, c1) \<Rightarrow> (Inl (Wrap ''MFA EndAuth request failed'' err), c1)
           | (Inr res, c1) \<Rightarrow>
               (case rs_body res of
                  None \<Rightarrow> (Inl (Wrap ''failed to decode MFA EndAuth response'' BodyReadError), c1)
                | Some b \<Rightarrow>
                    (case json_mfa e b of
                       None \<Rightarrow>
                         (Inl (Wrap ''failed to decode MFA EndAuth response'' JSONDecodeError), c1)
                     | Some mfaResp \<Rightarrow> (Inr mfaResp, c1)))))"

text \<open>\<^verbatim>\<open>processMFAAuth\<close>: the completion form, posted to the page's post-back URL.\<close>

definition processMFAAuth ::
  "env \<Rightarrow> client \<Rightarrow> mfa_response \<Rightarrow> converged_response \<Rightarrow> (error + http_response) \<times> client" where
  "processMFAAuth e c mfaResp convergedResp =
     (let formValues =
            values_Set (SFTName convergedResp) (FlowToken mfaResp)
              (values_Set ''login'' (SPOSTUsername convergedResp)
                (values_Set ''canary'' (Canary convergedResp)
                  (values_Set ''mfaAuthMethod'' (AuthMethodID mfaResp)
                    (values_Set ''request'' (Ctx mfaResp) []))))
      in case NewRequest e POST (URLPost convergedResp) (FormBody formValues) of
           Inl err \<Rightarrow> (Inl (Wrap ''failed to create MFA completion request'' err), c)
         | Inr req0 \<Rightarrow>
             Do e c (Header_Set ''Content-Type'' ''application/x-www-form-urlencoded'' req0))"

text \<open>
  The argument of \<^verbatim>\<open>time.Sleep\<close> in the polling loop, in nanoseconds:
  \<^verbatim>\<open>time.Duration(interval) * time.Second\<close>. The conversion of the float64 to the
  64-bit integer type drops the fraction (it truncates towards zero); the product is a
  64-bit signed product. For a float64 outside the range of the integer type Go leaves
  the converted value to the implementation; the model takes what the amd64 conversion
  instruction gives there, the least 64-bit integer.
  \<^verbatim>\<open>time.Sleep\<close> returns at once for a duration that is zero or negative; the trace
  records the argument as it is passed.
\<close>

definition truncate_float :: "real \<Rightarrow> int" where
  "truncate_float x = (if 0 \<le> x then \<lfloor>x\<rfloor> else \<lceil>x\<rceil>)"

definition float64_to_int64 :: "real \<Rightarrow> 64 word" where
  "float64_to_int64 x =
     (if - (2 ^ 63) \<le> truncate_float x \<and> truncate_float x < 2 ^ 63
      then word_of_int (truncate_float x)
      else word_of_int (- (2 ^ 63)))"

definition pollingSleep :: "real \<Rightarrow> int" where
  "pollingSleep interval = sint (float64_to_int64 interval * 1000000000)"

definition defaultSleep :: int where
  "defaultSleep = sint (2 * 1000000000 :: 64 word)"

definition Sleep :: "int \<Rightarrow> client \<Rightarrow> client" where
  "Sleep d c = c\<lparr>slept := slept c @ [d]\<rparr>"

text \<open>
  The first half of an iteration of the polling loop: the end request, the one-time
  code for the code methods (the supplied token, or a prompt), and the notice for the
  push method on the first iteration.
\<close>

definition endAuthRequest :: "mfa_response \<Rightarrow> mfa_request" where
  "endAuthRequest mfaResp =
     \<lparr>mq_AuthMethodID = AuthMethodID mfaResp,
      mq_Method = ''EndAuth'',
      mq_Ctx = Ctx mfaResp,
      mq_FlowToken = FlowToken mfaResp,
      mq_SessionID = mr_SessionID mfaResp,
      mq_AdditionalAuthData = ''''\<rparr>"

definition otpStep ::
  "env \<Rightarrow> client \<Rightarrow> login_credentials \<Rightarrow> mfa_request \<Rightarrow> (error + mfa_request) \<times> client" where
  "otpStep e c creds mfaReq =
     (if mq_AuthMethodID mfaReq = MFAPhoneAppOTP \<or> mq_AuthMethodID mfaReq = MFAOneWaySMS then
        (if MFAToken creds \<noteq> ''''
         then (Inr (mfaReq\<lparr>mq_AdditionalAuthData := MFAToken creds\<rparr>), c)
         else
           (case PromptString e c ''Enter verification code'' '''' of
              (Inl err, c1) \<Rightarrow> (Inl (Wrap ''failed to read verification code'' err), c1)
            | (Inr verifyCode, c1) \<Rightarrow> (Inr (mfaReq\<lparr>mq_AdditionalAuthData := verifyCode\<rparr>), c1)))
      else (Inr mfaReq, c))"

definition pushNotice :: "client \<Rightarrow> mfa_request \<Rightarrow> nat \<Rightarrow> mfa_response \<Rightarrow> client" where
  "pushNotice c mfaReq i mfaResp =
     (if mq_AuthMethodID mfaReq = MFAPhoneAppNotification \<and> i = 0 then
        (if Entropy mfaResp = 0
         then c\<lparr>printed := printed c @ [PhoneApprovalRequired]\<rparr>
         else c\<lparr>printed := printed c @ [PhoneApprovalNumberMatch (Entropy mfaResp)]\<rparr>)
      else c)"

text \<open>
  The polling loop of \<^verbatim>\<open>processMFA\<close>, \<^verbatim>\<open>for i := 0; ; i++\<close>, from iteration \<open>i\<close> with
  the last MFA response. It has no bound: it returns the response it broke out with, or
  an error, or it does not return (\<open>None\<close>).
\<close>

partial_function (option) mfaPollLoop ::
  "env \<Rightarrow> login_credentials \<Rightarrow> converged_response \<Rightarrow> client \<Rightarrow> nat \<Rightarrow> mfa_response
     \<Rightarrow> ((error + mfa_response) \<times> client) option" where
  "mfaPollLoop e creds convergedResp c i mfaResp =
     (case otpStep e c creds (endAuthRequest mfaResp) of
        (Inl err, c1) \<Rightarrow> Some (Inl err, c1)
      | (Inr mfaReq, c1) \<Rightarrow>
          (case processMFAEndAuth e (pushNotice c1 mfaReq i mfaResp) mfaReq convergedResp of
             (Inl err, c2) \<Rightarrow> Some (Inl (Wrap ''MFA EndAuth failed'' err), c2)
           | (Inr mfaResp', c2) \<Rightarrow>
               if ErrCode mfaResp' \<noteq> 0
               then Some (Inl (MFAError (ErrCode mfaResp') (Message mfaResp')), c2)
               else if Success mfaResp' then Some (Inr mfaResp', c2)
               else if \<not> Retry mfaResp' then Some (Inr mfaResp', c2)
               else
                 mfaPollLoop e creds convergedResp
                   (case OPerAuthPollingInterval convergedResp (AuthMethodID mfaResp') of
                      Some interval \<Rightarrow> Sleep (pollingSleep interval) c2
                    | None \<Rightarrow> Sleep defaultSleep c2)
                   (Suc i) mfaResp'))"

text \<open>\<^verbatim>\<open>processMFA\<close>.\<close>

definition processMFA ::
  "env \<Rightarrow> client \<Rightarrow> user_proof list \<Rightarrow> converged_response \<Rightarrow> login_credentials
     \<Rightarrow> ((error + http_response) \<times> client) option" where
  "processMFA e c mfas convergedResp creds =
     (if length mfas = 0 then Some (Inl NoMFAMethods, c)
      else
        (case processMFABeginAuth e c mfas convergedResp of
           (Inl err, c1) \<Rightarrow> Some (Inl (Wrap ''MFA BeginAuth failed'' err), c1)
         | (Inr mfaResp, c1) \<Rightarrow>
             (case mfaPollLoop e creds convergedResp c1 0 mfaResp of
                None \<Rightarrow> None
              | Some (Inl err, c2) \<Rightarrow> Some (Inl err, c2)
              | Some (Inr mfaResp', c2) \<Rightarrow>
                  if \<not> Success mfaResp' then Some (Inl MFAAuthenticationFailed, c2)
                  else Some (processMFAAuth e c2 mfaResp' convergedResp))))"

text \<open>\<^verbatim>\<open>processConvergedTFA\<close>.\<close>

definition processConvergedTFA ::
  "env \<Rightarrow> client \<Rightarrow> http_response \<Rightarrow> string \<Rightarrow> login_credentials
     \<Rightarrow> ((error + http_response) \<times> client) option" where
  "processConvergedTFA e c res resBodyStr creds =
     (case unmarshalEmbeddedJSON e resBodyStr of
        Inl err \<Rightarrow> Some (Inl (Wrap ''failed to parse ConvergedTFA response'' err), c)
      | Inr convergedResp \<Rightarrow>
          (let mfas = ArrUserProofs convergedResp
           in if URLSkipMfaRegistration convergedResp \<noteq> ''''
              then Some (Get e c (URLSkipMfaRegistration convergedResp))
              else if 0 < length mfas then processMFA e c mfas convergedResp creds
              else Some (Inr res, c)))"

subsection \<open>The main loop\<close>

text \<open>
  The loop of \<^verbatim>\<open>authenticate\<close>, entered with the response in hand. Each round reads
  the body and dispatches on it; a handler's response is the next round's. The loop has
  no bound: \<open>None\<close> stands for a run that does not return.
\<close>

partial_function (option) authenticateLoop ::
  "env \<Rightarrow> login_credentials \<Rightarrow> client \<Rightarrow> http_response \<Rightarrow> ((error + string) \<times> client) option" where
  "authenticateLoop e creds c res =
     (case rs_body res of
        None \<Rightarrow> Some (Inl (Wrap ''failed to read response body'' BodyReadError), c)
      | Some resBodyStr \<Rightarrow>
          if contains resBodyStr ''ConvergedSignIn'' then
            (case processConvergedSignIn e c res resBodyStr creds of
               (Inl err, c1) \<Rightarrow> Some (Inl (Wrap ''ConvergedSignIn failed'' err), c1)
             | (Inr res', c1) \<Rightarrow> authenticateLoop e creds c1 res')
          else if contains resBodyStr ''ConvergedTFA'' then
            (case processConvergedTFA e c res resBodyStr creds of
               None \<Rightarrow> None
             | Some (Inl err, c1) \<Rightarrow> Some (Inl (Wrap ''ConvergedTFA failed'' err), c1)
             | Some (Inr res', c1) \<Rightarrow> authenticateLoop e creds c1 res')
          else if contains resBodyStr ''KmsiInterrupt'' then
            (case processKmsiInterrupt e c res resBodyStr of
               (Inl err, c1) \<Rightarrow> Some (Inl (Wrap ''KmsiInterrupt failed'' err), c1)
             | (Inr res', c1) \<Rightarrow> authenticateLoop e creds c1 res')
          else if contains resBodyStr ''SAMLRequest'' then
            (case processSAMLRequest e c res resBodyStr of
               (Inl err, c1) \<Rightarrow> Some (Inl (Wrap ''SAMLRequest failed'' err), c1)
             | (Inr res', c1) \<Rightarrow> authenticateLoop e creds c1 res')
          else if isHiddenForm e resBodyStr then
            (if getSAMLAssertion e resBodyStr \<noteq> ''''
             then Some (Inr (getSAMLAssertion e resBodyStr), c)
             else
               (case reProcessForm e c resBodyStr of
                  (Inl err, c1) \<Rightarrow> Some (Inl (Wrap ''form reprocessing failed'' err), c1)
                | (Inr res', c1) \<Rightarrow> authenticateLoop e creds c1 res'))
          else if contains resBodyStr ''sErrorCode'' then
            (case unmarshalEmbeddedJSON e resBodyStr of
               Inr convergedResp \<Rightarrow>
                 if SErrorCode convergedResp \<noteq> '''' \<and> SErrorCode convergedResp \<noteq> ''50058''
                 then Some (Inl (AuthenticationError (SErrorCode convergedResp)
                                   (SErrTxt convergedResp)), c)
                 else Some (Inl UnknownAuthenticationState, c)
             | Inl err \<Rightarrow> Some (Inl UnknownAuthenticationState, c))
          else Some (Inl UnknownAuthenticationState, c))"

text \<open>\<^verbatim>\<open>authenticate\<close>: the first request, then the loop.\<close>

definition startURL :: "client \<Rightarrow> string" where
  "startURL c =
     baseURL c @ ''/applications/redirecttofederatedapplication.aspx?Operation=LinkedSignIn&applicationId=''
       @ appID c"

definition authenticate ::
  "env \<Rightarrow> client \<Rightarrow> login_credentials \<Rightarrow> ((error + string) \<times> client) option" where
  "authenticate e c creds =
     (case Get e c (startURL c) of
        (Inl err, c1) \<Rightarrow> Some (Inl (Wrap ''failed to start authentication'' err), c1)
      | (Inr res, c1) \<Rightarrow> authenticateLoop e creds c1 res)"

text \<open>\<^verbatim>\<open>Authenticate\<close> (client.go); \<open>None\<close> for the credentials is the nil pointer.\<close>

definition Authenticate ::
  "env \<Rightarrow> client \<Rightarrow> login_credentials option \<Rightarrow> ((error + string) \<times> client) option" where
  "Authenticate e c creds =
     (case creds of
        None \<Rightarrow> Some (Inl CredentialsNil, c)
      | Some cr \<Rightarrow>
          if Username cr = '''' then Some (Inl UsernameRequired, c)
          else if Password cr = '''' then Some (Inl PasswordRequired, c)
          else authenticate e c cr)"

subsection \<open>The classifier as the specification words it\<close>

text \<open>
  The page states in their order of precedence, each with the marker that announces it,
  and the choice of the first state whose marker is present. This definition follows
  the specification; \<open>authenticateLoop\<close> above follows the code, and the two are
  compared below.
\<close>

datatype page_state =
    ConvergedSignIn
  | ConvergedTFA
  | KmsiInterrupt
  | SAMLRequestRelay
  | HiddenFormOrAssertion
  | Fallback

fun marker :: "env \<Rightarrow> string \<Rightarrow> page_state \<Rightarrow> bool" where
  "marker e body ConvergedSignIn = contains body ''ConvergedSignIn''"
| "marker e body ConvergedTFA = contains body ''ConvergedTFA''"
| "marker e body KmsiInterrupt = contains body ''KmsiInterrupt''"
| "marker e body SAMLRequestRelay = contains body ''SAMLRequest''"
| "marker e body HiddenFormOrAssertion = isHiddenForm e body"
| "marker e body Fallback = True"

definition priority :: "page_state list" where
  "priority = [ConvergedSignIn, ConvergedTFA, KmsiInterrupt, SAMLRequestRelay,
               HiddenFormOrAssertion, Fallback]"

definition classify :: "env \<Rightarrow> string \<Rightarrow> page_state" where
  "classify e body =
     (case List.find (marker e body) priority of Some s \<Rightarrow> s | None \<Rightarrow> Fallback)"

text \<open>
  What one round of the loop does once the state is chosen: the branches of
  \<open>authenticateLoop\<close>, one per state.
\<close>

definition continueLoop ::
  "string \<Rightarrow> env \<Rightarrow> login_credentials \<Rightarrow> (error + http_response) \<times> client
     \<Rightarrow> ((error + string) \<times> client) option" where
  "continueLoop label e creds r =
     (case r of
        (Inl err, c1) \<Rightarrow> Some (Inl (Wrap label err), c1)
      | (Inr res', c1) \<Rightarrow> authenticateLoop e creds c1 res')"

definition fallbackError :: "env \<Rightarrow> string \<Rightarrow> error" where
  "fallbackError e body =
     (if contains body ''sErrorCode'' then
        (case unmarshalEmbeddedJSON e body of
           Inr convergedResp \<Rightarrow>
             if SErrorCode convergedResp \<noteq> '''' \<and> SErrorCode convergedResp \<noteq> ''50058''
             then AuthenticationError (SErrorCode convergedResp) (SErrTxt convergedResp)
             else UnknownAuthenticationState
         | Inl err \<Rightarrow> UnknownAuthenticationState)
      else UnknownAuthenticationState)"

fun runHandler ::
  "page_state \<Rightarrow> env \<Rightarrow> login_credentials \<Rightarrow> client \<Rightarrow> http_response \<Rightarrow> string
     \<Rightarrow> ((error + string) \<times> client) option" where
  "runHandler ConvergedSignIn e creds c res body =
     continueLoop ''ConvergedSignIn failed'' e creds (processConvergedSignIn e c res body creds)"
| "runHandler ConvergedTFA e creds c res body =
     (case processConvergedTFA e c res body creds of
        None \<Rightarrow> None
      | Some r \<Rightarrow> continueLoop ''ConvergedTFA failed'' e creds r)"
| "runHandler KmsiInterrupt e creds c res body =
     continueLoop ''KmsiInterrupt failed'' e creds (processKmsiInterrupt e c res body)"
| "runHandler SAMLRequestRelay e creds c res body =
     continueLoop ''SAMLRequest failed'' e creds (processSAMLRequest e c res body)"
| "runHandler HiddenFormOrAssertion e creds c res body =
     (if getSAMLAssertion e body \<noteq> '''' then Some (Inr (getSAMLAssertion e body), c)
      else continueLoop ''form reprocessing failed'' e creds (reProcessForm e c body))"
| "runHandler Fallback e creds c res body = Some (Inl (fallbackError e body), c)"




text \<open>
  The fields of a form as a browser would submit them: one pair for each input below the
  form that has a name attribute which is not empty, in document order, with the empty
  string for a missing value.
\<close>

definition input_field :: "html_node \<Rightarrow> (string \<times> string) list" where
  "input_field s =
     (case Attr s ''name'' of
        None \<Rightarrow> []
      | Some n \<Rightarrow>
          if n = '''' then []
          else [(n, case Attr s ''value'' of None \<Rightarrow> '''' | Some v \<Rightarrow> v)])"

definition form_fields :: "html_node \<Rightarrow> (string \<times> string) list" where
  "form_fields form = concat (map input_field (Find_tag form ''input''))"

text \<open>Some form of the page has an input named \<^verbatim>\<open>SAMLResponse\<close> with the value \<open>V\<close>.\<close>

definition formHasSAMLResponse :: "env \<Rightarrow> string \<Rightarrow> string \<Rightarrow> bool" where
  "formHasSAMLResponse e body V =
     (case parse_html e body of
        None \<Rightarrow> False
      | Some doc \<Rightarrow>
          list_ex (\<lambda>form. (''SAMLResponse'', V) \<in> set (form_fields form)) (Find_tag doc ''form''))"

text \<open>
  The errors the main loop itself returns: a handler's failure under the handler's
  label, a body that cannot be read, and the two results of the fallback.
\<close>

fun loopError :: "error \<Rightarrow> bool" where
  "loopError (Wrap label err) =
     (label \<in> {''failed to read response body'', ''ConvergedSignIn failed'',
                ''ConvergedTFA failed'', ''KmsiInterrupt failed'', ''SAMLRequest failed'',
                ''form reprocessing failed''})"
| "loopError (AuthenticationError code txt) = (code \<noteq> '''' \<and> code \<noteq> ''50058'')"
| "loopError UnknownAuthenticationState = True"
| "loopError err = False"

subsection \<open>Concrete pages and environments\<close>

text \<open>The zero values of the Go structs, and a client before its first request.\<close>

definition zeroConvergedResponse :: converged_response where
  "zeroConvergedResponse =
     \<lparr>URLGetCredentialType = '''', ArrUserProofs = [], URLSkipMfaRegistration = '''',
      OPerAuthPollingInterval = Map.empty, URLBeginAuth = '''', URLEndAuth = '''',
      URLPost = '''', SErrorCode = '''', SErrTxt = '''', SPOSTUsername = '''', SFT = '''',
      SFTName = '''', SCtx = '''', Hpgact = 0, Hpgid = 0, Pgid = '''', APICanary = '''',
      Canary = '''', CorrelationID = '''', SessionID = ''''\<rparr>"

definition zeroMFAResponse :: mfa_response where
  "zeroMFAResponse =
     \<lparr>Success = False, ResultValue = '''', Message = ''<nil>'', AuthMethodID = '''', ErrCode = 0,
      Retry = False, FlowToken = '''', Ctx = '''', mr_SessionID = '''', mr_CorrelationID = '''',
      Entropy = 0\<rparr>"

definition zeroCredentialTypeResponse :: get_credential_type_response where
  "zeroCredentialTypeResponse =
     \<lparr>gr_Username = '''', gr_Display = '''', gr_IfExistsResult = 0, gr_IsUnmanaged = False,
      gr_ThrottleStatus = 0, gr_PrefCredential = 0, gr_HasPassword = False,
      gr_FederationRedirectURL = '''', gr_FlowToken = '''', gr_IsSignupDisallowed = False,
      gr_APICanary = ''''\<rparr>"

definition newClient :: client where
  "newClient =
     \<lparr>baseURL = ''https://account.activedirectory.windowsazure.com'', appID = ''0a1b'',
      follow_redirect = True, jar = [], sent = [], slept = [], printed = [], lines_read = 0\<rparr>"

definition alice :: login_credentials where
  "alice = \<lparr>Username = ''alice@example.com'', Password = ''hunter2'', MFAToken = ''''\<rparr>"

text \<open>
  An environment where nothing answers: every exchange fails, no line can be read, no
  JSON decodes, every page parses to an empty document, every URL parses.
\<close>

definition emptyDocument :: html_node where
  "emptyDocument = Element ''#document'' [] [Element ''html'' [] []]"

definition silentEnv :: env where
  "silentEnv =
     \<lparr>responses = (\<lambda>k. Inl (TransportError ''no route to host'')),
      read_line = (\<lambda>k. None),
      parse_html = (\<lambda>s. Some emptyDocument),
      json_converged = (\<lambda>s. None),
      json_credential_type = (\<lambda>s. None),
      json_mfa = (\<lambda>s. None),
      url_parse_ok = (\<lambda>u. True),
      resolve_reference = (\<lambda>b r. r),
      user_agent = ''azure2aws/1.0 (linux amd64)''\<rparr>"

definition page :: "string \<Rightarrow> http_response" where
  "page b = \<lparr>rs_request_url = ''https://login.example.com/'', rs_body = Some b, rs_cookies = []\<rparr>"

text \<open>A page that carries two markers.\<close>

definition twoMarkerPage :: string where
  "twoMarkerPage = ''<html>ConvergedTFA ConvergedSignIn</html>''"






text \<open>
  A terminal page whose form holds two inputs named \<^verbatim>\<open>SAMLResponse\<close>, and the tree
  the parser builds for it.
\<close>

definition twoAssertionsPage :: string where
  "twoAssertionsPage =
     ''<form action=https://sp.example.com/acs><input type=hidden name=SAMLResponse value=AAAA><input type=hidden name=SAMLResponse value=BBBB></form>''"

definition twoAssertionsForm :: html_node where
  "twoAssertionsForm =
     Element ''form'' [(''action'', ''https://sp.example.com/acs'')]
       [Element ''input''
          [(''type'', ''hidden''), (''name'', ''SAMLResponse''), (''value'', ''AAAA'')] [],
        Element ''input''
          [(''type'', ''hidden''), (''name'', ''SAMLResponse''), (''value'', ''BBBB'')] []]"

definition twoAssertionsDocument :: html_node where
  "twoAssertionsDocument =
     Element ''#document'' []
       [Element ''html'' []
          [Element ''head'' [] [], Element ''body'' [] [twoAssertionsForm]]]"

definition twoAssertionsEnv :: env where
  "twoAssertionsEnv =
     silentEnv\<lparr>parse_html :=
       (\<lambda>s. if s = twoAssertionsPage then Some twoAssertionsDocument else Some emptyDocument)\<rparr>"

text \<open>
  A terminal page whose first input repeats the \<^verbatim>\<open>name\<close> attribute, and the tree the
  parser builds for it: the parser keeps both attributes, in the order of the page.
\<close>

definition repeatedNamePage :: string where
  "repeatedNamePage =
     ''<form action=https://sp.example.com/acs><input name=x name=SAMLResponse value=EVIL><input name=SAMLResponse value=GOOD></form>''"

definition repeatedNameForm :: html_node where
  "repeatedNameForm =
     Element ''form'' [(''action'', ''https://sp.example.com/acs'')]
       [Element ''input''
          [(''name'', ''x''), (''name'', ''SAMLResponse''), (''value'', ''EVIL'')] [],
        Element ''input''
          [(''name'', ''SAMLResponse''), (''value'', ''GOOD'')] []]"

definition repeatedNameDocument :: html_node where
  "repeatedNameDocument =
     Element ''#document'' []
       [Element ''html'' []
          [Element ''head'' [] [], Element ''body'' [] [repeatedNameForm]]]"

definition repeatedNameEnv :: env where
  "repeatedNameEnv =
     silentEnv\<lparr>parse_html :=
       (\<lambda>s. if s = repeatedNamePage then Some repeatedNameDocument else Some emptyDocument)\<rparr>"

text \<open>An MFA page with three methods, the second one the default.\<close>

definition threeProofs :: "user_proof list" where
  "threeProofs =
     [\<lparr>up_AuthMethodID = ''OneWaySMS'', up_Data = '''', up_Display = ''+1 XXX 12'', up_IsDefault = False\<rparr>,
      \<lparr>up_AuthMethodID = ''PhoneAppNotification'', up_Data = '''', up_Display = ''app'', up_IsDefault = True\<rparr>,
      \<lparr>up_AuthMethodID = ''PhoneAppOTP'', up_Data = '''', up_Display = ''code'', up_IsDefault = False\<rparr>]"

definition tfaConfig :: converged_response where
  "tfaConfig =
     zeroConvergedResponse
       \<lparr>ArrUserProofs := threeProofs,
        URLBeginAuth := ''https://login.example.com/common/SAS/BeginAuth'',
        URLEndAuth := ''https://login.example.com/common/SAS/EndAuth'',
        URLPost := ''https://login.example.com/common/SAS/ProcessAuth'',
        SFT := ''flow-0'', SFTName := ''flowToken'', SCtx := ''ctx-0''\<rparr>"

text \<open>
  The answer of a begin-challenge for the push method, and an end-challenge answer that
  carries an error code together with the success and retry flags.
\<close>

definition beginResponse :: mfa_response where
  "beginResponse =
     zeroMFAResponse
       \<lparr>Success := True, AuthMethodID := ''PhoneAppNotification'', FlowToken := ''flow-1'',
        Ctx := ''ctx-1'', mr_SessionID := ''session-1'', Entropy := 42\<rparr>"

definition deniedBody :: string where
  \<open>deniedBody = ''{"Success":true,"Retry":true,"ErrCode":500121,"Message":"denied"}''\<close>

definition deniedResponse :: mfa_response where
  "deniedResponse =
     zeroMFAResponse\<lparr>Success := True, Retry := True, ErrCode := 500121, Message := ''denied''\<rparr>"

definition deniedEnv :: env where
  "deniedEnv =
     silentEnv
       \<lparr>responses := (\<lambda>k. Inr (page deniedBody)),
        json_mfa := (\<lambda>s. if s = deniedBody then Some deniedResponse else None)\<rparr>"

text \<open>
  A sign-in page of a federated account: the credential-type query answers with a
  federation redirect URL, and that URL serves an ADFS form.
\<close>

definition signInJSON :: string where
  \<open>signInJSON = ''{"urlGetCredentialType":"https://login.example.com/GetCredentialType","urlPost":"/login","sFT":"flow-0","sFTName":"flowToken","sCtx":"ctx-0"}''\<close>

definition signInPage :: string where
  "signInPage = ''<html>ConvergedSignIn $Config='' @ signInJSON @ '';</html>''"

definition signInConfig :: converged_response where
  "signInConfig =
     zeroConvergedResponse
       \<lparr>URLGetCredentialType := ''https://login.example.com/GetCredentialType'',
        URLPost := ''/login'', SFT := ''flow-0'', SFTName := ''flowToken'', SCtx := ''ctx-0''\<rparr>"

definition federationBody :: string where
  \<open>federationBody = ''{"Credentials":{"FederationRedirectUrl":"https://adfs.example.com/ls"}}''\<close>

definition adfsPage :: string where
  "adfsPage = ''<form action=/adfs/ls><input type=hidden name=Kmsi value=true></form>''"

definition adfsDocument :: html_node where
  "adfsDocument =
     Element ''#document'' []
       [Element ''html'' []
          [Element ''head'' [] [],
           Element ''body'' []
             [Element ''form'' [(''action'', ''/adfs/ls'')]
                [Element ''input'' [(''type'', ''hidden''), (''name'', ''Kmsi''), (''value'', ''true'')] []]]]]"

definition federatedEnv :: env where
  \<open>federatedEnv =
     silentEnv
       \<lparr>responses :=
          (\<lambda>k. if k = 0 then Inr (page federationBody)
               else if k = 1 then
                 Inr \<lparr>rs_request_url = ''https://adfs.example.com/ls'', rs_body = Some adfsPage,
                      rs_cookies = [''MSISAuth'']\<rparr>
               else Inr (page ''<html></html>'')),
        json_converged :=
          (\<lambda>s. if s = signInJSON then Some signInConfig else None),
        json_credential_type :=
          (\<lambda>s. if s = federationBody
               then Some (zeroCredentialTypeResponse
                            \<lparr>gr_FederationRedirectURL := ''https://adfs.example.com/ls''\<rparr>)
               else None),
        parse_html := (\<lambda>s. if s = adfsPage then Some adfsDocument else Some emptyDocument),
        resolve_reference := (\<lambda>b r. ''https://adfs.example.com'' @ r)\<rparr>\<close>

text \<open>A relay form where two inputs bear the name \<^verbatim>\<open>scope\<close>, and its tree.\<close>

definition scopesPage :: string where
  "scopesPage =
     ''<form action=https://sp.example.com/relay><input type=hidden name=scope value=openid><input type=hidden name=scope value=profile><input type=hidden name=state></form>''"

definition scopesForm :: html_node where
  "scopesForm =
     Element ''form'' [(''action'', ''https://sp.example.com/relay'')]
       [Element ''input'' [(''type'', ''hidden''), (''name'', ''scope''), (''value'', ''openid'')] [],
        Element ''input'' [(''type'', ''hidden''), (''name'', ''scope''), (''value'', ''profile'')] [],
        Element ''input'' [(''type'', ''hidden''), (''name'', ''state'')] []]"

definition scopesDocument :: html_node where
  "scopesDocument =
     Element ''#document'' []
       [Element ''html'' [] [Element ''head'' [] [], Element ''body'' [] [scopesForm]]]"

definition scopesEnv :: env where
  "scopesEnv =
     silentEnv\<lparr>parse_html :=
       (\<lambda>s. if s = scopesPage then Some scopesDocument else Some emptyDocument)\<rparr>"

text \<open>A relay form whose inputs have distinct names, one of them with an empty value.\<close>

definition relayPage :: string where
  "relayPage =
     ''<form action=https://sp.example.com/relay><input type=hidden name=RelayState value=><input type=hidden name=wctx value=abc></form>''"

definition relayForm :: html_node where
  "relayForm =
     Element ''form'' [(''action'', ''https://sp.example.com/relay'')]
       [Element ''input'' [(''type'', ''hidden''), (''name'', ''RelayState''), (''value'', '''')] [],
        Element ''input'' [(''type'', ''hidden''), (''name'', ''wctx''), (''value'', ''abc'')] []]"

definition relayDocument :: html_node where
  "relayDocument =
     Element ''#document'' []
       [Element ''html'' [] [Element ''head'' [] [], Element ''body'' [] [relayForm]]]"

definition relayEnv :: env where
  "relayEnv =
     silentEnv\<lparr>parse_html :=
       (\<lambda>s. if s = relayPage then Some relayDocument else Some emptyDocument)\<rparr>"

text \<open>
  A chain of relay pages: the relay page is served twice, then the page that carries the
  assertion.
\<close>

definition assertionPage :: string where
  "assertionPage =
     ''<form action=https://signin.aws.amazon.com/saml><input type=hidden name=SAMLResponse value=PHNhbWw></form>''"

definition assertionDocument :: html_node where
  "assertionDocument =
     Element ''#document'' []
       [Element ''html'' []
          [Element ''head'' [] [],
           Element ''body'' []
             [Element ''form'' [(''action'', ''https://signin.aws.amazon.com/saml'')]
                [Element ''input''
                   [(''type'', ''hidden''), (''name'', ''SAMLResponse''), (''value'', ''PHNhbWw'')]
                   []]]]]"

definition chainEnv :: env where
  "chainEnv =
     silentEnv
       \<lparr>responses := (\<lambda>k. if k = 0 then Inr (page relayPage) else Inr (page assertionPage)),
        parse_html :=
          (\<lambda>s. if s = relayPage then Some relayDocument
               else if s = assertionPage then Some assertionDocument
               else Some emptyDocument)\<rparr>"

definition relayRequest :: http_request where
  "relayRequest =
     \<lparr>rq_method = POST, rq_url = ''https://sp.example.com/relay'',
      rq_headers = [(''Content-Type'', ''application/x-www-form-urlencoded''),
                    (''User-Agent'', ''azure2aws/1.0 (linux amd64)'')],
      rq_body = FormBody [(''RelayState'', ''''), (''wctx'', ''abc'')]\<rparr>"

text \<open>
  The attempt needs no prompt: the method takes no one-time code, or the caller supplied
  one. \<open>sleepFor\<close> is the argument of the sleep after a retryable answer.
\<close>

definition codeAtHand :: "login_credentials \<Rightarrow> mfa_response \<Rightarrow> bool" where
  "codeAtHand creds r =
     ((AuthMethodID r \<noteq> MFAPhoneAppOTP \<and> AuthMethodID r \<noteq> MFAOneWaySMS) \<or> MFAToken creds \<noteq> '''')"

definition sleepFor :: "converged_response \<Rightarrow> mfa_response \<Rightarrow> int" where
  "sleepFor conv r =
     (case OPerAuthPollingInterval conv (AuthMethodID r) of
        Some interval \<Rightarrow> pollingSleep interval
      | None \<Rightarrow> defaultSleep)"

text \<open>
  A push approval that is pending once and then granted, on a page that advertises a
  polling interval of half a second for the push method.
\<close>

definition pendingBody :: string where
  \<open>pendingBody = ''{"Success":false,"Retry":true,"ErrCode":0,"AuthMethodId":"PhoneAppNotification"}''\<close>

definition approvedBody :: string where
  \<open>approvedBody = ''{"Success":true,"Retry":false,"ErrCode":0,"AuthMethodId":"PhoneAppNotification"}''\<close>

definition pendingResponse :: mfa_response where
  "pendingResponse = zeroMFAResponse\<lparr>Retry := True, AuthMethodID := ''PhoneAppNotification''\<rparr>"

definition approvedResponse :: mfa_response where
  "approvedResponse = zeroMFAResponse\<lparr>Success := True, AuthMethodID := ''PhoneAppNotification''\<rparr>"

definition halfSecondConfig :: converged_response where
  "halfSecondConfig = tfaConfig\<lparr>OPerAuthPollingInterval := [''PhoneAppNotification'' \<mapsto> 1 / 2]\<rparr>"

definition pollEnv :: env where
  "pollEnv =
     silentEnv
       \<lparr>responses := (\<lambda>k. if k = 0 then Inr (page pendingBody) else Inr (page approvedBody)),
        json_mfa :=
          (\<lambda>s. if s = pendingBody then Some pendingResponse
               else if s = approvedBody then Some approvedResponse
               else None)\<rparr>"

definition endAuthPost :: "mfa_request \<Rightarrow> http_request" where
  "endAuthPost q =
     \<lparr>rq_method = POST, rq_url = ''https://login.example.com/common/SAS/EndAuth'',
      rq_headers = [(''Content-Type'', ''application/json''),
                    (''User-Agent'', ''azure2aws/1.0 (linux amd64)'')],
      rq_body = MFABody q\<rparr>"

section \<open>Properties\<close>

subsection \<open>Library facts\<close>

lemma contains_iff_sublist: "contains s t \<longleftrightarrow> sublist t s"
  by (induction s) (auto simp: sublist_Cons_right)

subsection \<open>The order of the classifier\<close>

lemma authenticateLoop_dispatch:
  assumes "rs_body res = Some body"
  shows "authenticateLoop e creds c res = runHandler (classify e body) e creds c res body"
  using assms
  apply (subst authenticateLoop.simps)
  apply (simp add: classify_def priority_def continueLoop_def fallbackError_def
        split: prod.splits sum.splits option.splits)
  done

lemma classify_first_match:
  "i < length priority \<Longrightarrow> marker e body (priority ! i) \<Longrightarrow>
   (\<forall>j<i. \<not> marker e body (priority ! j)) \<Longrightarrow> classify e body = priority ! i"
  unfolding classify_def
  by (auto simp: find_Some_iff split: option.splits simp: find_None_iff)
     (metis linorder_neqE_nat)+

text \<open>
  Claim C1. On every response body the loop runs the handler of the state that
  \<open>classify\<close> selects, and \<open>classify\<close> selects the first state, in the order
  ConvergedSignIn, ConvergedTFA, KmsiInterrupt, SAMLRequest, hidden form, fallback,
  whose marker is present: a state is chosen as soon as its marker is present and no
  marker of an earlier state is, whatever later markers the body also holds.
\<close>

theorem classifier_priority:
  "(rs_body res = Some body \<longrightarrow>
      authenticateLoop e creds c res = runHandler (classify e body) e creds c res body) \<and>
   (\<forall>i<length priority.
      marker e body (priority ! i) \<and> (\<forall>j<i. \<not> marker e body (priority ! j))
        \<longrightarrow> classify e body = priority ! i)"
  using authenticateLoop_dispatch classify_first_match by blast

lemma twoMarker_classify: "classify silentEnv twoMarkerPage = ConvergedSignIn"
  by (simp add: classify_def priority_def twoMarkerPage_def)

lemma twoMarker_both:
  "contains twoMarkerPage ''ConvergedTFA'' \<and> contains twoMarkerPage ''ConvergedSignIn''"
  by (simp add: twoMarkerPage_def)

theorem classifier_priority_witness:
  "contains twoMarkerPage ''ConvergedTFA'' \<and> contains twoMarkerPage ''ConvergedSignIn'' \<and>
   classify silentEnv twoMarkerPage = ConvergedSignIn \<and>
   authenticateLoop silentEnv alice newClient (page twoMarkerPage) =
     Some (Inl (Wrap ''ConvergedSignIn failed''
                 (Wrap ''failed to parse ConvergedSignIn response'' ConfigNotFound)), newClient)"
proof -
  have body: "rs_body (page twoMarkerPage) = Some twoMarkerPage"
    by (simp add: page_def)
  have cfg: "findConfig twoMarkerPage = None"
    by (simp add: twoMarkerPage_def)
  have "authenticateLoop silentEnv alice newClient (page twoMarkerPage) =
        runHandler ConvergedSignIn silentEnv alice newClient (page twoMarkerPage) twoMarkerPage"
    using classifier_priority [of "page twoMarkerPage" twoMarkerPage silentEnv alice newClient]
          body twoMarker_classify by simp
  also have "\<dots> = Some (Inl (Wrap ''ConvergedSignIn failed''
                 (Wrap ''failed to parse ConvergedSignIn response'' ConfigNotFound)), newClient)"
    by (simp add: continueLoop_def processConvergedSignIn_def unmarshalEmbeddedJSON_def cfg)
  finally show ?thesis
    using twoMarker_both twoMarker_classify by simp
qed

subsection \<open>The fallback\<close>
























subsection \<open>The entry point\<close>

text \<open>
  Claim C10. With nil credentials, an empty user name or an empty password,
  \<open>Authenticate\<close> returns an error and the client it was given: no request is issued, and
  the jar and the redirect setting are as before.
\<close>

theorem Authenticate_rejects_missing_credentials:
  "(creds = None \<longrightarrow> Authenticate e c creds = Some (Inl CredentialsNil, c)) \<and>
   (\<forall>cr. creds = Some cr \<and> Username cr = ''''
      \<longrightarrow> Authenticate e c creds = Some (Inl UsernameRequired, c)) \<and>
   (\<forall>cr. creds = Some cr \<and> Username cr \<noteq> '''' \<and> Password cr = ''''
      \<longrightarrow> Authenticate e c creds = Some (Inl PasswordRequired, c))"
  by (simp add: Authenticate_def)

theorem Authenticate_rejects_missing_credentials_witness:
  "Authenticate silentEnv newClient None = Some (Inl CredentialsNil, newClient) \<and>
   Authenticate silentEnv newClient (Some (alice\<lparr>Username := ''''\<rparr>))
     = Some (Inl UsernameRequired, newClient) \<and>
   Authenticate silentEnv newClient (Some (alice\<lparr>Password := ''''\<rparr>))
     = Some (Inl PasswordRequired, newClient) \<and>
   sent newClient = [] \<and> jar newClient = [] \<and> follow_redirect newClient"
  using Authenticate_rejects_missing_credentials [of None silentEnv newClient]
        Authenticate_rejects_missing_credentials
          [of "Some (alice\<lparr>Username := ''''\<rparr>)" silentEnv newClient]
        Authenticate_rejects_missing_credentials
          [of "Some (alice\<lparr>Password := ''''\<rparr>)" silentEnv newClient]
  by (simp add: alice_def newClient_def)

subsection \<open>Terminal extraction\<close>

lemma twoAssertions_markers:
  "\<not> contains twoAssertionsPage ''ConvergedSignIn'' \<and> \<not> contains twoAssertionsPage ''ConvergedTFA'' \<and>
   \<not> contains twoAssertionsPage ''KmsiInterrupt'' \<and> \<not> contains twoAssertionsPage ''SAMLRequest''"
  by (simp add: twoAssertionsPage_def)

lemma twoAssertions_parse:
  "parse_html twoAssertionsEnv twoAssertionsPage = Some twoAssertionsDocument"
  by (simp add: twoAssertionsEnv_def)

lemma twoAssertions_forms: "Find_tag twoAssertionsDocument ''form'' = [twoAssertionsForm]"
  by (simp add: twoAssertionsDocument_def twoAssertionsForm_def Find_tag_def)

lemma twoAssertions_inputs:
  "Find_tag_attr twoAssertionsDocument ''input'' ''name'' ''SAMLResponse'' =
     [Element ''input''
        [(''type'', ''hidden''), (''name'', ''SAMLResponse''), (''value'', ''AAAA'')] [],
      Element ''input''
        [(''type'', ''hidden''), (''name'', ''SAMLResponse''), (''value'', ''BBBB'')] []]"
  by (simp add: twoAssertionsDocument_def twoAssertionsForm_def Find_tag_attr_def)

lemma twoAssertions_fields:
  "form_fields twoAssertionsForm = [(''SAMLResponse'', ''AAAA''), (''SAMLResponse'', ''BBBB'')]"
  by (simp add: twoAssertionsForm_def form_fields_def input_field_def Find_tag_def)

lemma twoAssertions_hidden: "isHiddenForm twoAssertionsEnv twoAssertionsPage"
  by (simp add: isHiddenForm_def twoAssertions_parse twoAssertions_forms twoAssertions_inputs)

lemma twoAssertions_has:
  "formHasSAMLResponse twoAssertionsEnv twoAssertionsPage ''BBBB''"
  by (simp add: formHasSAMLResponse_def twoAssertions_parse twoAssertions_forms
      twoAssertions_fields)

lemma twoAssertions_get: "getSAMLAssertion twoAssertionsEnv twoAssertionsPage = ''AAAA''"
  by (simp add: getSAMLAssertion_def twoAssertions_parse twoAssertions_inputs Selection_Attr_def)

text \<open>
  The claim as it is worded, "if the form has an input named SAMLResponse with the
  non-empty value V, the result is V", fails on a page whose form has two such inputs:
  the result is the value of the first one in the document, and the claim would promise
  the value of the second as well.
\<close>

theorem terminal_extraction_counterexample:
  "rs_body (page twoAssertionsPage) = Some twoAssertionsPage \<and>
   \<not> contains twoAssertionsPage ''ConvergedSignIn'' \<and>
   \<not> contains twoAssertionsPage ''ConvergedTFA'' \<and>
   \<not> contains twoAssertionsPage ''KmsiInterrupt'' \<and>
   \<not> contains twoAssertionsPage ''SAMLRequest'' \<and>
   isHiddenForm twoAssertionsEnv twoAssertionsPage \<and>
   formHasSAMLResponse twoAssertionsEnv twoAssertionsPage ''BBBB'' \<and>
   authenticateLoop twoAssertionsEnv alice newClient (page twoAssertionsPage)
     = Some (Inr ''AAAA'', newClient) \<and>
   authenticateLoop twoAssertionsEnv alice newClient (page twoAssertionsPage)
     \<noteq> Some (Inr ''BBBB'', newClient)"
proof -
  have "authenticateLoop twoAssertionsEnv alice newClient (page twoAssertionsPage)
     = Some (Inr ''AAAA'', newClient)"
    apply (subst authenticateLoop.simps)
    using twoAssertions_markers twoAssertions_hidden
    apply (simp add: page_def twoAssertions_get)
    done
  then show ?thesis
    using twoAssertions_markers twoAssertions_hidden twoAssertions_has
    by (simp add: page_def)
qed

text \<open>
  Claim C2, amended. For a body that is classified as a hidden form (none of the four
  textual markers, a form with a hidden input or a SAMLResponse input): when the first
  input of the document, in document order, that carries a name attribute
  \<^verbatim>\<open>SAMLResponse\<close> (any of its name attributes, if it repeats the attribute) has a value
  attribute whose first occurrence is a non-empty string \<open>V\<close>, the loop returns exactly
  \<open>V\<close> with no error and with the client as it was, so no further request is issued.
\<close>

theorem terminal_extraction:
  assumes "rs_body res = Some body"
      and "\<not> contains body ''ConvergedSignIn''" and "\<not> contains body ''ConvergedTFA''"
      and "\<not> contains body ''KmsiInterrupt''" and "\<not> contains body ''SAMLRequest''"
      and "isHiddenForm e body"
      and "parse_html e body = Some doc"
      and "Find_tag_attr doc ''input'' ''name'' ''SAMLResponse'' = inp # others"
      and "Attr inp ''value'' = Some V" and "V \<noteq> ''''"
  shows "authenticateLoop e creds c res = Some (Inr V, c)"
proof -
  have "getSAMLAssertion e body = V"
    using assms(7-9) by (simp add: getSAMLAssertion_def Selection_Attr_def)
  then show ?thesis
    using assms(1-6,10) by (subst authenticateLoop.simps) simp
qed

theorem terminal_extraction_witness:
  "authenticateLoop twoAssertionsEnv alice newClient (page twoAssertionsPage)
     = Some (Inr ''AAAA'', newClient)"
proof -
  note sel = twoAssertions_inputs
  show ?thesis
    using terminal_extraction [OF _ _ _ _ _ twoAssertions_hidden twoAssertions_parse sel,
        of "page twoAssertionsPage" "''AAAA''" alice newClient]
      twoAssertions_markers
    by (simp add: page_def)
qed

text \<open>
  The selector looks at every attribute of an input: on a page whose first input
  repeats the \<^verbatim>\<open>name\<close> attribute, with \<^verbatim>\<open>SAMLResponse\<close> as the second of the two,
  that input is selected and the run returns its value.
\<close>

lemma repeatedName_inputs:
  "Find_tag_attr repeatedNameDocument ''input'' ''name'' ''SAMLResponse'' =
     [Element ''input''
        [(''name'', ''x''), (''name'', ''SAMLResponse''), (''value'', ''EVIL'')] [],
      Element ''input''
        [(''name'', ''SAMLResponse''), (''value'', ''GOOD'')] []]"
  by (simp add: repeatedNameDocument_def repeatedNameForm_def Find_tag_attr_def)

lemma repeatedName_hidden: "isHiddenForm repeatedNameEnv repeatedNamePage"
  by (simp add: isHiddenForm_def repeatedNameEnv_def repeatedName_inputs)
     (simp add: repeatedNameDocument_def repeatedNameForm_def Find_tag_def)

lemma repeatedName_run:
  "authenticateLoop repeatedNameEnv alice newClient (page repeatedNamePage)
     = Some (Inr ''EVIL'', newClient)"
proof -
  have markers:
    "\<not> contains repeatedNamePage ''ConvergedSignIn'' \<and> \<not> contains repeatedNamePage ''ConvergedTFA'' \<and>
     \<not> contains repeatedNamePage ''KmsiInterrupt'' \<and> \<not> contains repeatedNamePage ''SAMLRequest''"
    by (simp add: repeatedNamePage_def)
  have get: "getSAMLAssertion repeatedNameEnv repeatedNamePage = ''EVIL''"
    by (simp add: getSAMLAssertion_def repeatedNameEnv_def repeatedName_inputs Selection_Attr_def)
  show ?thesis
    apply (subst authenticateLoop.simps)
    using markers repeatedName_hidden
    apply (simp add: page_def get)
    done
qed

subsection \<open>Choice of the MFA method\<close>

lemma selectMFA_none: "\<forall>v\<in>set vs. \<not> up_IsDefault v \<Longrightarrow> selectMFA m vs = m"
  by (induction vs) auto

lemma selectMFA_first:
  "i < length vs \<Longrightarrow> up_IsDefault (vs ! i) \<Longrightarrow> (\<forall>j<i. \<not> up_IsDefault (vs ! j))
     \<Longrightarrow> selectMFA m vs = vs ! i"
proof (induction vs arbitrary: i)
  case Nil
  then show ?case by simp
next
  case (Cons v vs)
  show ?case
  proof (cases i)
    case 0
    with Cons.prems show ?thesis by simp
  next
    case (Suc k)
    with Cons.prems have nd: "\<not> up_IsDefault v" by auto
    have "selectMFA m vs = vs ! k"
      using Cons.IH [of k] Cons.prems Suc by fastforce
    with nd Suc show ?thesis by simp
  qed
qed

lemma sent_Do: "sent (snd (Do e c req)) = sent c @ [Header_Set ''User-Agent'' (user_agent e) req]"
  by (simp add: Do_def Let_def split: sum.splits)

lemma processMFABeginAuth_sent:
  assumes "mfas = m0 # ms" and "url_parse_ok e (URLBeginAuth conv)"
  shows "sent (snd (processMFABeginAuth e c mfas conv)) =
           sent c @ [Header_Set ''User-Agent'' (user_agent e)
                      (Header_Set ''Content-Type'' ''application/json''
                        \<lparr>rq_method = POST, rq_url = URLBeginAuth conv, rq_headers = [],
                         rq_body = MFABody
                           \<lparr>mq_AuthMethodID = up_AuthMethodID (selectMFA m0 mfas),
                            mq_Method = ''BeginAuth'', mq_Ctx = SCtx conv,
                            mq_FlowToken = SFT conv, mq_SessionID = '''',
                            mq_AdditionalAuthData = ''''\<rparr>\<rparr>)]"
  using assms
  by (simp add: processMFABeginAuth_def NewRequest_def Do_def Let_def
      split: sum.splits option.splits prod.splits)

text \<open>
  Claim C5. For a non-empty list of user proofs (and a begin URL that parses, so that the
  request exists), the begin-challenge request is the one request the step issues, and
  it names the method of the entry flagged as default when exactly one entry is flagged,
  wherever it stands, and the method of the first entry when none is flagged.
\<close>

theorem begin_challenge_selection:
  assumes "mfas \<noteq> []" and "url_parse_ok e (URLBeginAuth conv)"
  shows "\<exists>req m. sent (snd (processMFABeginAuth e c mfas conv)) = sent c @ [req] \<and>
           rq_method req = POST \<and> rq_url req = URLBeginAuth conv \<and>
           rq_body req = MFABody m \<and> mq_Method m = ''BeginAuth'' \<and>
           (\<forall>i<length mfas.
              up_IsDefault (mfas ! i) \<and> (\<forall>j<length mfas. j \<noteq> i \<longrightarrow> \<not> up_IsDefault (mfas ! j))
                \<longrightarrow> mq_AuthMethodID m = up_AuthMethodID (mfas ! i)) \<and>
           ((\<forall>v\<in>set mfas. \<not> up_IsDefault v) \<longrightarrow> mq_AuthMethodID m = up_AuthMethodID (hd mfas))"
proof -
  from assms(1) obtain m0 ms where mfas: "mfas = m0 # ms"
    by (cases mfas) auto
  let ?m = "\<lparr>mq_AuthMethodID = up_AuthMethodID (selectMFA m0 mfas),
              mq_Method = ''BeginAuth'', mq_Ctx = SCtx conv,
              mq_FlowToken = SFT conv, mq_SessionID = '''',
              mq_AdditionalAuthData = ''''\<rparr>"
  let ?req = "Header_Set ''User-Agent'' (user_agent e)
                (Header_Set ''Content-Type'' ''application/json''
                   \<lparr>rq_method = POST, rq_url = URLBeginAuth conv, rq_headers = [],
                    rq_body = MFABody ?m\<rparr>)"
  have s: "sent (snd (processMFABeginAuth e c mfas conv)) = sent c @ [?req]"
    using processMFABeginAuth_sent [OF mfas assms(2)] .
  have one: "mq_AuthMethodID ?m = up_AuthMethodID (mfas ! i)"
    if "i < length mfas" "up_IsDefault (mfas ! i)"
       "\<forall>j<length mfas. j \<noteq> i \<longrightarrow> \<not> up_IsDefault (mfas ! j)" for i
  proof -
    have "\<forall>j<i. \<not> up_IsDefault (mfas ! j)"
      using that by auto
    then show ?thesis
      using selectMFA_first [of i mfas m0] that by simp
  qed
  have none: "mq_AuthMethodID ?m = up_AuthMethodID (hd mfas)"
    if "\<forall>v\<in>set mfas. \<not> up_IsDefault v"
    using selectMFA_none [OF that, of m0] mfas by simp
  show ?thesis
    apply (rule exI [of _ ?req])
    apply (rule exI [of _ ?m])
    using s one none
    apply (simp add: Header_Set_def)
    done
qed

theorem begin_challenge_selection_witness:
  "\<exists>req m. sent (snd (processMFABeginAuth silentEnv newClient threeProofs tfaConfig)) = [req] \<and>
      rq_body req = MFABody m \<and> mq_AuthMethodID m = ''PhoneAppNotification''"
proof -
  have ne: "threeProofs \<noteq> []"
    by (simp add: threeProofs_def)
  have ok: "url_parse_ok silentEnv (URLBeginAuth tfaConfig)"
    by (simp add: silentEnv_def)
  have len: "length threeProofs = 3"
    by (simp add: threeProofs_def)
  have d1: "up_IsDefault (threeProofs ! 1)"
    by (simp add: threeProofs_def)
  have others: "\<forall>j<length threeProofs. j \<noteq> 1 \<longrightarrow> \<not> up_IsDefault (threeProofs ! j)"
    by (auto simp: threeProofs_def less_Suc_eq numeral_3_eq_3)
  have m1: "up_AuthMethodID (threeProofs ! 1) = ''PhoneAppNotification''"
    by (simp add: threeProofs_def)
  from begin_challenge_selection [OF ne ok, of newClient]
  obtain req m where
    a: "sent (snd (processMFABeginAuth silentEnv newClient threeProofs tfaConfig)) = sent newClient @ [req]"
    and b: "rq_body req = MFABody m"
    and c: "\<forall>i<length threeProofs.
       up_IsDefault (threeProofs ! i) \<and>
       (\<forall>j<length threeProofs. j \<noteq> i \<longrightarrow> \<not> up_IsDefault (threeProofs ! j))
         \<longrightarrow> mq_AuthMethodID m = up_AuthMethodID (threeProofs ! i)"
    by blast
  have "1 < length threeProofs"
    using len by simp
  with c d1 others have "mq_AuthMethodID m = up_AuthMethodID (threeProofs ! 1)"
    by blast
  with a b m1 show ?thesis
    by (auto simp: newClient_def)
qed

subsection \<open>The polling loop: a hard error\<close>

lemma otpStep_trace:
  "otpStep e c creds q = (r, c1) \<Longrightarrow> sent c1 = sent c \<and> slept c1 = slept c"
  by (auto simp: otpStep_def PromptString_def Let_def split: if_splits option.splits)

lemma pushNotice_trace:
  "sent (pushNotice c q i r) = sent c \<and> slept (pushNotice c q i r) = slept c"
  by (simp add: pushNotice_def)

lemma processMFAEndAuth_answer:
  assumes "url_parse_ok e (URLEndAuth conv)"
      and "responses e (length (sent c)) = Inr res" "rs_body res = Some b" "json_mfa e b = Some r"
  shows "\<exists>c2 req. processMFAEndAuth e c q conv = (Inr r, c2) \<and>
           sent c2 = sent c @ [req] \<and> rq_body req = MFABody q \<and> slept c2 = slept c \<and>
           printed c2 = printed c \<and> lines_read c2 = lines_read c"
  using assms
  by (simp add: processMFAEndAuth_def NewRequest_def Do_def Header_Set_def Let_def)

text \<open>
  Claim C6. In any iteration of the polling loop, once the attempt has its one-time code
  (or needs none): when the end-challenge answer carries an error code that is not zero,
  the loop returns the MFA error with that code and message, whatever the success and
  retry flags of the answer are. The trace shows the one end-challenge request of this
  iteration as the last request, and no sleep is added.
\<close>

theorem mfa_error_stops:
  assumes "otpStep e c creds (endAuthRequest mfaResp) = (Inr mfaReq, c1)"
      and "url_parse_ok e (URLEndAuth conv)"
      and "responses e (length (sent c)) = Inr res"
      and "rs_body res = Some b" and "json_mfa e b = Some r"
      and "ErrCode r \<noteq> 0"
  shows "\<exists>c2 req. mfaPollLoop e creds conv c i mfaResp =
                     Some (Inl (MFAError (ErrCode r) (Message r)), c2) \<and>
           sent c2 = sent c @ [req] \<and> rq_body req = MFABody mfaReq \<and> slept c2 = slept c"
proof -
  let ?c = "pushNotice c1 mfaReq i mfaResp"
  have tr: "sent ?c = sent c" "slept ?c = slept c"
    using otpStep_trace [OF assms(1)] pushNotice_trace [of c1 mfaReq i mfaResp] by simp_all
  from processMFAEndAuth_answer [of e conv ?c res b r mfaReq] assms(2-5) tr
  obtain c2 req where
    e: "processMFAEndAuth e ?c mfaReq conv = (Inr r, c2)"
    and s: "sent c2 = sent c @ [req]" "rq_body req = MFABody mfaReq" "slept c2 = slept c"
    by auto
  have "mfaPollLoop e creds conv c i mfaResp = Some (Inl (MFAError (ErrCode r) (Message r)), c2)"
    by (subst mfaPollLoop.simps) (simp add: assms(1) e assms(6))
  with s show ?thesis by blast
qed

theorem mfa_error_stops_witness:
  "\<exists>c2 req. mfaPollLoop deniedEnv alice tfaConfig newClient 3 beginResponse =
               Some (Inl (MFAError 500121 ''denied''), c2) \<and>
     sent c2 = [req] \<and> slept c2 = []"
proof -
  have otp: "otpStep deniedEnv newClient alice (endAuthRequest beginResponse) =
               (Inr (endAuthRequest beginResponse), newClient)"
    by (simp add: otpStep_def endAuthRequest_def beginResponse_def zeroMFAResponse_def
        MFAPhoneAppOTP_def MFAOneWaySMS_def)
  have ok: "url_parse_ok deniedEnv (URLEndAuth tfaConfig)"
    by (simp add: deniedEnv_def silentEnv_def)
  have r: "responses deniedEnv (length (sent newClient)) = Inr (page deniedBody)"
    by (simp add: deniedEnv_def)
  have b: "rs_body (page deniedBody) = Some deniedBody"
    by (simp add: page_def)
  have j: "json_mfa deniedEnv deniedBody = Some deniedResponse"
    by (simp add: deniedEnv_def)
  have nz: "ErrCode deniedResponse \<noteq> 0"
    by (simp add: deniedResponse_def)
  from mfa_error_stops [OF otp ok r b j nz, of 3]
  show ?thesis
    by (auto simp: deniedResponse_def newClient_def)
qed

subsection \<open>The federated path of the sign-in page\<close>

lemma map_of_values_Set: "map_of (values_Set k v kvs) = (map_of kvs)(k \<mapsto> v)"
  by (induction kvs) auto

lemma federated_form_differs:
  "map_of (federatedFormValues creds fv) \<noteq> map_of (loginFormValues creds conv)"
proof
  assume eq: "map_of (federatedFormValues creds fv) = map_of (loginFormValues creds conv)"
  have "map_of (federatedFormValues creds fv) ''UserName''
          = map_of (loginFormValues creds conv) ''UserName''"
       "map_of (federatedFormValues creds fv) ''Password''
          = map_of (loginFormValues creds conv) ''Password''"
    using eq by simp_all
  then have "SFTName conv = ''UserName''" and "SFTName conv = ''Password''"
    by (auto simp: federatedFormValues_def loginFormValues_def map_of_values_Set
        split: if_splits)
  then show False by simp
qed

lemma requestGetCredentialType_trace:
  "requestGetCredentialType e c ref creds conv = (r, c1) \<Longrightarrow>
     \<exists>new. sent c1 = sent c @ new \<and> (\<forall>req\<in>set new. \<exists>q. rq_body req = CredentialTypeBody q)"
  by (auto simp: requestGetCredentialType_def NewRequest_def Do_def Header_Set_def Let_def
      split: if_splits sum.splits option.splits)

lemma Do_trace:
  "\<exists>r c1. Do e c req = (r, c1) \<and>
           sent c1 = sent c @ [Header_Set ''User-Agent'' (user_agent e) req]"
  by (simp add: Do_def Let_def split: sum.splits)

lemma processFederatedAuth_trace:
  "\<exists>new. sent (snd (processFederatedAuth e c u creds)) = sent c @ new \<and>
     (\<forall>req\<in>set new. rq_body req = NoBody \<or>
                      (\<exists>fv. rq_body req = FormBody (federatedFormValues creds fv)))"
proof (cases "url_parse_ok e u")
  case False
  then show ?thesis
    by (simp add: processFederatedAuth_def Get_def NewRequest_def)
next
  case True
  let ?g = "\<lparr>rq_method = GET, rq_url = u, rq_headers = [], rq_body = NoBody\<rparr>"
  obtain r c1 where d: "Do e c ?g = (r, c1)"
    and s: "sent c1 = sent c @ [Header_Set ''User-Agent'' (user_agent e) ?g]"
    using Do_trace by blast
  have g: "Get e c u = (r, c1)"
    using True d by (simp add: Get_def NewRequest_def)
  have nb: "rq_body (Header_Set ''User-Agent'' (user_agent e) ?g) = NoBody"
    by (simp add: Header_Set_def)
  show ?thesis
  proof (cases r)
    case (Inl err)
    with g s nb show ?thesis
      by (simp add: processFederatedAuth_def)
  next
    case (Inr res)
    show ?thesis
    proof (cases "rs_body res")
      case None
      with g s nb Inr show ?thesis
        by (simp add: processFederatedAuth_def)
    next
      case (Some b)
      show ?thesis
      proof (cases "parseFormData e b")
        case (Inl err)
        with g s nb Inr Some show ?thesis
          by (simp add: processFederatedAuth_def)
      next
        case pr: (Inr p)
        obtain fv a where p: "p = (fv, a)" by (cases p)
        show ?thesis
        proof (cases "a = '''' \<or> \<not> url_parse_ok e (fullURL e res a)")
          case True
          with g s nb Inr Some pr p show ?thesis
            by (auto simp: processFederatedAuth_def NewRequest_def)
        next
          case False
          let ?p = "Header_Set ''Content-Type'' ''application/x-www-form-urlencoded''
                      \<lparr>rq_method = POST, rq_url = fullURL e res a, rq_headers = [],
                       rq_body = FormBody (federatedFormValues creds fv)\<rparr>"
          obtain r2 c2 where d2: "Do e c1 ?p = (r2, c2)"
            and s2: "sent c2 = sent c1 @ [Header_Set ''User-Agent'' (user_agent e) ?p]"
            using Do_trace by blast
          have "processFederatedAuth e c u creds = (r2, c2)"
            using g Inr Some pr p False d2
            by (simp add: processFederatedAuth_def NewRequest_def)
          moreover have "rq_body (Header_Set ''User-Agent'' (user_agent e) ?p)
                           = FormBody (federatedFormValues creds fv)"
            by (simp add: Header_Set_def)
          ultimately show ?thesis
            using s s2 nb by auto
        qed
      qed
    qed
  qed
qed

text \<open>
  Claim C8. On a sign-in page whose credential-type query returns a federation redirect
  URL that is not empty, the handler is the federated path run on that URL (the fetch of
  the URL, then the post of the form found there), and no request the handler issues
  carries the direct password form: every form body it sends differs, as a set of
  name/value pairs, from the password form of the page.
\<close>

theorem federated_path:
  assumes "unmarshalEmbeddedJSON e body = Inr conv"
      and "requestGetCredentialType e c (rs_request_url res) creds conv = (Inr ct, c1)"
      and "gr_FederationRedirectURL ct \<noteq> ''''"
  shows "processConvergedSignIn e c res body creds
           = processFederatedAuth e c1 (gr_FederationRedirectURL ct) creds \<and>
         (\<exists>new. sent (snd (processConvergedSignIn e c res body creds)) = sent c @ new \<and>
            (\<forall>req\<in>set new. \<forall>vs. rq_body req = FormBody vs
                \<longrightarrow> map_of vs \<noteq> map_of (loginFormValues creds conv)))"
proof -
  have eq: "processConvergedSignIn e c res body creds
              = processFederatedAuth e c1 (gr_FederationRedirectURL ct) creds"
    using assms by (simp add: processConvergedSignIn_def Let_def)
  from requestGetCredentialType_trace [OF assms(2)]
  obtain n1 where n1: "sent c1 = sent c @ n1"
    "\<forall>req\<in>set n1. \<exists>q. rq_body req = CredentialTypeBody q" by blast
  from processFederatedAuth_trace [of e c1 "gr_FederationRedirectURL ct" creds]
  obtain n2 where n2:
    "sent (snd (processFederatedAuth e c1 (gr_FederationRedirectURL ct) creds)) = sent c1 @ n2"
    "\<forall>req\<in>set n2. rq_body req = NoBody \<or>
                    (\<exists>fv. rq_body req = FormBody (federatedFormValues creds fv))" by blast
  have "sent (snd (processConvergedSignIn e c res body creds)) = sent c @ (n1 @ n2)"
    using eq n1(1) n2(1) by simp
  moreover have "\<forall>req\<in>set (n1 @ n2). \<forall>vs. rq_body req = FormBody vs
                \<longrightarrow> map_of vs \<noteq> map_of (loginFormValues creds conv)"
    using n1(2) n2(2) federated_form_differs by fastforce
  ultimately show ?thesis
    using eq by blast
qed

lemma signInPage_config: "findConfig signInPage = Some signInJSON"
  by (simp add: signInPage_def signInJSON_def)

lemma adfs_form:
  "parseFormData federatedEnv adfsPage = Inr ([(''Kmsi'', ''true'')], ''/adfs/ls'')"
  by (simp add: parseFormData_def federatedEnv_def adfsDocument_def Find_tag_def
      Selection_Attr_def form_input_def adfsPage_def)

lemma federated_run:
  assumes "sent c1 = [x]"
  shows "sent (snd (processFederatedAuth federatedEnv c1 ''https://adfs.example.com/ls'' alice)) =
           [x,
            \<lparr>rq_method = GET, rq_url = ''https://adfs.example.com/ls'',
             rq_headers = [(''User-Agent'', ''azure2aws/1.0 (linux amd64)'')], rq_body = NoBody\<rparr>,
            \<lparr>rq_method = POST, rq_url = ''https://adfs.example.com/adfs/ls'',
             rq_headers = [(''Content-Type'', ''application/x-www-form-urlencoded''),
                           (''User-Agent'', ''azure2aws/1.0 (linux amd64)'')],
             rq_body = FormBody [(''Kmsi'', ''true''), (''UserName'', ''alice@example.com''),
                  (''Password'', ''hunter2''), (''AuthMethod'', ''FormsAuthentication'')]\<rparr>]"
proof -
  have r1: "responses federatedEnv (Suc 0) =
              Inr \<lparr>rs_request_url = ''https://adfs.example.com/ls'', rs_body = Some adfsPage,
                   rs_cookies = [''MSISAuth'']\<rparr>"
    by (simp add: federatedEnv_def)
  have r2: "responses federatedEnv (Suc (Suc 0)) = Inr (page ''<html></html>'')"
    by (simp add: federatedEnv_def)
  have ok: "url_parse_ok federatedEnv u" for u
    by (simp add: federatedEnv_def silentEnv_def)
  have ua: "user_agent federatedEnv = ''azure2aws/1.0 (linux amd64)''"
    by (simp add: federatedEnv_def silentEnv_def)
  have full: "fullURL federatedEnv res ''/adfs/ls'' = ''https://adfs.example.com/adfs/ls''" for res
    by (simp add: fullURL_def federatedEnv_def silentEnv_def)
  have fv: "federatedFormValues alice [(''Kmsi'', ''true'')] =
              [(''Kmsi'', ''true''), (''UserName'', ''alice@example.com''),
               (''Password'', ''hunter2''), (''AuthMethod'', ''FormsAuthentication'')]"
    by (simp add: federatedFormValues_def alice_def)
  show ?thesis
    by (simp add: processFederatedAuth_def Get_def NewRequest_def Do_def Let_def assms r1 r2 ok ua
        adfs_form full fv Header_Set_def)
qed

theorem federated_path_witness:
  "map rq_url (sent (snd (processConvergedSignIn federatedEnv newClient (page signInPage)
                            signInPage alice)))
     = [''https://login.example.com/GetCredentialType'', ''https://adfs.example.com/ls'',
        ''https://adfs.example.com/adfs/ls''] \<and>
   map rq_body (sent (snd (processConvergedSignIn federatedEnv newClient (page signInPage)
                            signInPage alice)))
     = [CredentialTypeBody (credentialTypeRequest alice signInConfig), NoBody,
        FormBody [(''Kmsi'', ''true''), (''UserName'', ''alice@example.com''),
                  (''Password'', ''hunter2''), (''AuthMethod'', ''FormsAuthentication'')]]"
proof -
  let ?ct = "zeroCredentialTypeResponse\<lparr>gr_FederationRedirectURL := ''https://adfs.example.com/ls''\<rparr>"
  let ?q = "requestGetCredentialType federatedEnv newClient (rs_request_url (page signInPage))
              alice signInConfig"
  have cfg: "unmarshalEmbeddedJSON federatedEnv signInPage = Inr signInConfig"
    by (simp add: unmarshalEmbeddedJSON_def signInPage_config federatedEnv_def)
  have q1: "fst ?q = Inr ?ct"
    by (simp add: requestGetCredentialType_def NewRequest_def Do_def Let_def federatedEnv_def
        silentEnv_def signInConfig_def zeroConvergedResponse_def newClient_def page_def
        federationBody_def)
  obtain x where q2: "sent (snd ?q) = [x]"
    and x: "rq_url x = ''https://login.example.com/GetCredentialType''"
           "rq_body x = CredentialTypeBody (credentialTypeRequest alice signInConfig)"
    by (simp add: requestGetCredentialType_def NewRequest_def Do_def Let_def federatedEnv_def
        silentEnv_def signInConfig_def zeroConvergedResponse_def newClient_def page_def
        federationBody_def Header_Set_def)
  have q: "?q = (Inr ?ct, snd ?q)"
    using q1 by (simp add: prod_eq_iff)
  have fed: "gr_FederationRedirectURL ?ct \<noteq> ''''"
    by simp
  have eq: "processConvergedSignIn federatedEnv newClient (page signInPage) signInPage alice
              = processFederatedAuth federatedEnv (snd ?q) ''https://adfs.example.com/ls'' alice"
    using federated_path [OF cfg q fed] by simp
  show ?thesis
    unfolding eq federated_run [OF q2] using x by simp
qed

subsection \<open>The hidden-form relay\<close>

lemma keys_values_Set:
  "map fst (values_Set k v kvs) = (if k \<in> fst ` set kvs then map fst kvs else map fst kvs @ [k])"
  by (induction kvs) force+

lemma distinct_values_Set:
  "distinct (map fst kvs) \<Longrightarrow> distinct (map fst (values_Set k v kvs))"
  by (simp add: keys_values_Set)

lemma form_input_fields:
  "form_input vs s = foldl (\<lambda>a (n, v). values_Set n v a) vs (input_field s)"
  by (cases s) (auto simp: form_input_def input_field_def Selection_Attr_def split: option.splits)

lemma foldl_form_input:
  "foldl form_input vs ss = foldl (\<lambda>a (n, v). values_Set n v a) vs (concat (map input_field ss))"
  by (induction ss arbitrary: vs) (simp_all add: form_input_fields)

lemma map_of_foldl_Set:
  "map_of (foldl (\<lambda>a (n, v). values_Set n v a) vs kvs) = map_of vs ++ map_of (rev kvs)"
proof (induction kvs arbitrary: vs)
  case Nil
  then show ?case by simp
next
  case (Cons p kvs)
  obtain n v where p: "p = (n, v)" by (cases p)
  have "map_of (foldl (\<lambda>a (n, v). values_Set n v a) vs (p # kvs))
          = map_of (values_Set n v vs) ++ map_of (rev kvs)"
    using Cons.IH [of "values_Set n v vs"] p by simp
  also have "\<dots> = (map_of vs)(n \<mapsto> v) ++ map_of (rev kvs)"
    by (simp only: map_of_values_Set)
  also have "\<dots> = map_of vs ++ map_of (rev (p # kvs))"
    by (auto simp: p fun_eq_iff map_add_def split: option.splits)
  finally show ?case .
qed

lemma distinct_foldl_Set:
  "distinct (map fst vs) \<Longrightarrow> distinct (map fst (foldl (\<lambda>a (n, v). values_Set n v a) vs kvs))"
  by (induction kvs arbitrary: vs) (auto simp: distinct_values_Set)

lemma set_distinct_alist:
  "distinct (map fst xs) \<Longrightarrow> set xs = {(k, v). map_of xs k = Some v}"
  by auto

lemma parsed_values:
  "set (foldl form_input [] (Find_tag form ''input''))
     = {(n, v). map_of (rev (form_fields form)) n = Some v}"
proof -
  let ?vs = "foldl form_input [] (Find_tag form ''input'')"
  have eq: "?vs = foldl (\<lambda>a (n, v). values_Set n v a) [] (form_fields form)"
    by (simp add: foldl_form_input form_fields_def)
  have "distinct (map fst ?vs)"
    unfolding eq by (rule distinct_foldl_Set) simp
  then have "set ?vs = {(k, v). map_of ?vs k = Some v}"
    by (rule set_distinct_alist)
  also have "map_of ?vs = map_of (rev (form_fields form))"
    unfolding eq by (simp add: map_of_foldl_Set)
  finally show ?thesis .
qed

text \<open>
  Claim C9, amended. For a page whose first form has an action that is not empty and
  parses, the relay issues one POST to that action, and its body holds, for each input
  name of the form, the pair of that name with the value of the last input that bears
  it (document order), an input without a value giving the empty string. So when no
  name is borne by two inputs of the form, the pairs of the outgoing body are exactly
  the fields of the form, those with an empty value included.
\<close>

theorem relay_preserves_fields:
  assumes "parse_html e body = Some doc" and "Find_tag doc ''form'' = form # others"
      and "Attr form ''action'' = Some a" and "a \<noteq> ''''" and "url_parse_ok e a"
  shows "\<exists>req vs. sent (snd (reProcessForm e c body)) = sent c @ [req] \<and>
           rq_method req = POST \<and> rq_url req = a \<and> rq_body req = FormBody vs \<and>
           set vs = {(n, v). map_of (rev (form_fields form)) n = Some v} \<and>
           (distinct (map fst (form_fields form)) \<longrightarrow> set vs = set (form_fields form))"
proof -
  let ?vs = "foldl form_input [] (Find_tag form ''input'')"
  let ?req = "Header_Set ''User-Agent'' (user_agent e)
                (Header_Set ''Content-Type'' ''application/x-www-form-urlencoded''
                   \<lparr>rq_method = POST, rq_url = a, rq_headers = [], rq_body = FormBody ?vs\<rparr>)"
  have p: "parseFormData e body = Inr (?vs, a)"
    using assms(1-3) by (simp add: parseFormData_def Selection_Attr_def)
  have s: "sent (snd (reProcessForm e c body)) = sent c @ [?req]"
    using p assms(4,5)
    by (simp add: reProcessForm_def NewRequest_def Do_def Let_def split: sum.splits)
  have g: "set ?vs = {(n, v). map_of (rev (form_fields form)) n = Some v}"
    by (rule parsed_values)
  have d: "set ?vs = set (form_fields form)" if "distinct (map fst (form_fields form))"
  proof -
    from that have "distinct (map fst (rev (form_fields form)))"
      by (simp add: rev_map [symmetric])
    then have "set (rev (form_fields form))
                 = {(n, v). map_of (rev (form_fields form)) n = Some v}"
      by (rule set_distinct_alist)
    with g show ?thesis by simp
  qed
  show ?thesis
    apply (rule exI [of _ ?req])
    apply (rule exI [of _ ?vs])
    using s g d
    apply (simp add: Header_Set_def)
    done
qed

lemma scopes_form: "Find_tag scopesDocument ''form'' = [scopesForm]"
  by (simp add: scopesDocument_def scopesForm_def Find_tag_def)

lemma scopes_fields:
  "form_fields scopesForm = [(''scope'', ''openid''), (''scope'', ''profile''), (''state'', '''')]"
  by (simp add: scopesForm_def form_fields_def input_field_def Find_tag_def)

lemma scopes_parsed:
  "parseFormData scopesEnv scopesPage =
     Inr ([(''scope'', ''profile''), (''state'', '''')], ''https://sp.example.com/relay'')"
  by (simp add: parseFormData_def scopesEnv_def scopes_form)
     (simp add: scopesForm_def Find_tag_def Selection_Attr_def form_input_def)

text \<open>
  The claim as it is worded, "every name/value pair of the source form is in the
  outgoing body", fails on a form where two inputs bear one name: \<^verbatim>\<open>values.Set\<close>
  keeps one value per name, so the pair of the earlier input is not sent.
\<close>

theorem relay_preserves_fields_counterexample:
  "parse_html scopesEnv scopesPage = Some scopesDocument \<and>
   Find_tag scopesDocument ''form'' = [scopesForm] \<and>
   form_fields scopesForm = [(''scope'', ''openid''), (''scope'', ''profile''), (''state'', '''')] \<and>
   map rq_body (sent (snd (reProcessForm scopesEnv newClient scopesPage)))
     = [FormBody [(''scope'', ''profile''), (''state'', '''')]] \<and>
   (''scope'', ''openid'') \<in> set (form_fields scopesForm) \<and>
   (''scope'', ''openid'') \<notin> set [(''scope'', ''profile''), (''state'', '''')]"
proof -
  have ok: "url_parse_ok scopesEnv u" for u
    by (simp add: scopesEnv_def silentEnv_def)
  have r: "responses scopesEnv k = Inl (TransportError ''no route to host'')" for k
    by (simp add: scopesEnv_def silentEnv_def)
  have "map rq_body (sent (snd (reProcessForm scopesEnv newClient scopesPage)))
     = [FormBody [(''scope'', ''profile''), (''state'', '''')]]"
    by (simp add: reProcessForm_def scopes_parsed NewRequest_def Do_def Let_def Header_Set_def
        ok r newClient_def)
  then show ?thesis
    by (simp add: scopes_form scopes_fields scopesEnv_def)
qed

lemma relay_form: "Find_tag relayDocument ''form'' = relayForm # []"
  by (simp add: relayDocument_def relayForm_def Find_tag_def)

lemma relay_fields: "form_fields relayForm = [(''RelayState'', ''''), (''wctx'', ''abc'')]"
  by (simp add: relayForm_def form_fields_def input_field_def Find_tag_def)

theorem relay_preserves_fields_witness:
  "\<exists>req vs. sent (snd (reProcessForm relayEnv newClient relayPage)) = [req] \<and>
      rq_url req = ''https://sp.example.com/relay'' \<and> rq_body req = FormBody vs \<and>
      set vs = {(''RelayState'', ''''), (''wctx'', ''abc'')}"
proof -
  have p: "parse_html relayEnv relayPage = Some relayDocument"
    by (simp add: relayEnv_def)
  have a: "Attr relayForm ''action'' = Some ''https://sp.example.com/relay''"
    by (simp add: relayForm_def)
  have ne: "''https://sp.example.com/relay'' \<noteq> ''''"
    by simp
  have ok: "url_parse_ok relayEnv ''https://sp.example.com/relay''"
    by (simp add: relayEnv_def silentEnv_def)
  have d: "distinct (map fst (form_fields relayForm))"
    by (simp add: relay_fields)
  from relay_preserves_fields [OF p relay_form a ne ok, of newClient] d
  show ?thesis
    by (auto simp: relay_fields newClient_def)
qed

subsection \<open>How the main loop ends\<close>

lemma relayPage_markers:
  "\<not> contains relayPage ''ConvergedSignIn'' \<and> \<not> contains relayPage ''ConvergedTFA'' \<and>
   \<not> contains relayPage ''KmsiInterrupt'' \<and> \<not> contains relayPage ''SAMLRequest''"
  by (simp add: relayPage_def)

lemma assertionPage_markers:
  "\<not> contains assertionPage ''ConvergedSignIn'' \<and> \<not> contains assertionPage ''ConvergedTFA'' \<and>
   \<not> contains assertionPage ''KmsiInterrupt'' \<and> \<not> contains assertionPage ''SAMLRequest''"
  by (simp add: assertionPage_def)

lemma pages_differ: "assertionPage \<noteq> relayPage"
  by (simp add: assertionPage_def relayPage_def)

lemma chain_parse:
  "parse_html chainEnv relayPage = Some relayDocument"
  "parse_html chainEnv assertionPage = Some assertionDocument"
  using pages_differ by (simp_all add: chainEnv_def)

lemma chain_relay_hidden: "isHiddenForm chainEnv relayPage"
  by (simp add: isHiddenForm_def chain_parse relay_form)
     (simp add: relayDocument_def relayForm_def Find_tag_attr_def)

lemma chain_relay_no_assertion: "getSAMLAssertion chainEnv relayPage = ''''"
  by (simp add: getSAMLAssertion_def chain_parse relayDocument_def relayForm_def
      Find_tag_attr_def Selection_Attr_def)

lemma chain_assertion_hidden: "isHiddenForm chainEnv assertionPage"
  by (simp add: isHiddenForm_def chain_parse assertionDocument_def Find_tag_def Find_tag_attr_def)

lemma chain_assertion: "getSAMLAssertion chainEnv assertionPage = ''PHNhbWw''"
  by (simp add: getSAMLAssertion_def chain_parse assertionDocument_def
      Find_tag_attr_def Selection_Attr_def)

lemma chain_relay_parsed:
  "parseFormData chainEnv relayPage =
     Inr ([(''RelayState'', ''''), (''wctx'', ''abc'')], ''https://sp.example.com/relay'')"
  by (simp add: parseFormData_def chain_parse relay_form)
     (simp add: relayForm_def Find_tag_def Selection_Attr_def form_input_def)

lemma chain_relay_round:
  "reProcessForm chainEnv c relayPage =
     (Inr (if length (sent c) = 0 then page relayPage else page assertionPage),
      c\<lparr>sent := sent c @ [relayRequest]\<rparr>)"
proof -
  have ok: "url_parse_ok chainEnv u" for u
    by (simp add: chainEnv_def silentEnv_def)
  have ua: "user_agent chainEnv = ''azure2aws/1.0 (linux amd64)''"
    by (simp add: chainEnv_def silentEnv_def)
  have r: "responses chainEnv k = (if k = 0 then Inr (page relayPage) else Inr (page assertionPage))"
    for k by (simp add: chainEnv_def)
  show ?thesis
    by (simp add: reProcessForm_def chain_relay_parsed NewRequest_def Do_def Let_def Header_Set_def
        ok ua r relayRequest_def page_def)
qed

lemma chain_classify: "classify chainEnv relayPage = HiddenFormOrAssertion"
  using relayPage_markers chain_relay_hidden by (simp add: classify_def priority_def)

lemma chain_round1:
  "reProcessForm chainEnv newClient relayPage
     = (Inr (page relayPage), newClient\<lparr>sent := [relayRequest]\<rparr>)"
  using chain_relay_round [of newClient] by (simp add: newClient_def)

lemma chain_run:
  "authenticateLoop chainEnv alice newClient (page relayPage)
     = Some (Inr ''PHNhbWw'', newClient\<lparr>sent := [relayRequest, relayRequest]\<rparr>)"
proof -
  have round2: "reProcessForm chainEnv (newClient\<lparr>sent := [relayRequest]\<rparr>) relayPage
                  = (Inr (page assertionPage), newClient\<lparr>sent := [relayRequest, relayRequest]\<rparr>)"
    using chain_relay_round [of "newClient\<lparr>sent := [relayRequest]\<rparr>"] by simp
  have b: "rs_body (page relayPage) = Some relayPage"
    by (simp add: page_def)
  have l3: "authenticateLoop chainEnv alice (newClient\<lparr>sent := [relayRequest, relayRequest]\<rparr>)
              (page assertionPage)
            = Some (Inr ''PHNhbWw'', newClient\<lparr>sent := [relayRequest, relayRequest]\<rparr>)"
    using assertionPage_markers chain_assertion_hidden
    by (subst authenticateLoop.simps) (simp add: page_def chain_assertion)
  have l2: "authenticateLoop chainEnv alice (newClient\<lparr>sent := [relayRequest]\<rparr>) (page relayPage)
            = Some (Inr ''PHNhbWw'', newClient\<lparr>sent := [relayRequest, relayRequest]\<rparr>)"
    using relayPage_markers chain_relay_hidden
    by (subst authenticateLoop.simps)
       (simp add: b chain_relay_no_assertion round2 l3)
  show ?thesis
    using relayPage_markers chain_relay_hidden
    by (subst authenticateLoop.simps)
       (simp add: b chain_relay_no_assertion chain_round1 l2)
qed

text \<open>
  The claim as it is worded fails on a chain of relay pages: the handler of the hidden
  form state returns a response that is classified to the hidden form state again, the
  loop handles that state a second time, and the run ends with the assertion.
\<close>

theorem no_revisit_counterexample:
  "rs_body (page relayPage) = Some relayPage \<and>
   classify chainEnv relayPage = HiddenFormOrAssertion \<and>
   getSAMLAssertion chainEnv relayPage = '''' \<and>
   reProcessForm chainEnv newClient relayPage
     = (Inr (page relayPage), newClient\<lparr>sent := [relayRequest]\<rparr>) \<and>
   classify chainEnv (the (rs_body (page relayPage))) = HiddenFormOrAssertion \<and>
   authenticateLoop chainEnv alice newClient (page relayPage)
     = Some (Inr ''PHNhbWw'', newClient\<lparr>sent := [relayRequest, relayRequest]\<rparr>)"
  using chain_round1 chain_run chain_classify chain_relay_no_assertion
  by (simp add: page_def)

text \<open>
  Claim C3, amended. Whenever the main loop returns, its result is a SAML assertion (the
  SAMLResponse value, not empty, of a body classified as a hidden form) or one of the
  loop's explicit errors: a handler's failure under the handler's label, an unreadable
  body, the authentication error of the fallback, or the unknown-state error. The loop
  keeps no record of the states it has handled: each response a handler returns is
  classified afresh and may be of any state.
\<close>

theorem loop_results:
  assumes "authenticateLoop e creds c res = Some (r, c')"
  shows "case r of
           Inr assertion \<Rightarrow>
             assertion \<noteq> '''' \<and>
             (\<exists>body. classify e body = HiddenFormOrAssertion \<and> getSAMLAssertion e body = assertion)
         | Inl err \<Rightarrow> loopError err"
proof -
  have "case fst (r, c') of
           Inr assertion \<Rightarrow>
             assertion \<noteq> '''' \<and>
             (\<exists>body. classify e body = HiddenFormOrAssertion \<and> getSAMLAssertion e body = assertion)
         | Inl err \<Rightarrow> loopError err"
  proof (rule authenticateLoop.raw_induct
      [where P = "\<lambda>e creds c res y. case fst y of
           Inr assertion \<Rightarrow>
             assertion \<noteq> '''' \<and>
             (\<exists>body. classify e body = HiddenFormOrAssertion \<and> getSAMLAssertion e body = assertion)
         | Inl err \<Rightarrow> loopError err", OF _ assms], goal_cases)
    case (1 f e creds c res y)
    show ?case
    proof (cases "rs_body res")
      case None
      with 1(2) show ?thesis by auto
    next
      case (Some body)
      have hf: "classify e body = HiddenFormOrAssertion"
        if "\<not> contains body ''ConvergedSignIn''" "\<not> contains body ''ConvergedTFA''"
           "\<not> contains body ''KmsiInterrupt''" "\<not> contains body ''SAMLRequest''"
           "isHiddenForm e body"
        using that by (simp add: classify_def priority_def)
      show ?thesis
        using 1(2) Some
        apply (simp split: if_split_asm prod.split_asm sum.split_asm option.split_asm)
        apply (auto elim: 1(1))
        apply (rule exI [of _ body])
        apply (simp add: hf)
        done
    qed
  qed
  then show ?thesis by simp
qed

lemma twoMarker_run:
  "authenticateLoop silentEnv alice newClient (page twoMarkerPage) =
     Some (Inl (Wrap ''ConvergedSignIn failed''
                 (Wrap ''failed to parse ConvergedSignIn response'' ConfigNotFound)), newClient)"
proof -
  have cfg: "findConfig twoMarkerPage = None"
    by (simp add: twoMarkerPage_def)
  show ?thesis
    using twoMarker_both
    by (subst authenticateLoop.simps)
       (simp add: page_def processConvergedSignIn_def unmarshalEmbeddedJSON_def cfg)
qed

theorem loop_results_witness:
  "''PHNhbWw'' \<noteq> '''' \<and>
   (\<exists>body. classify chainEnv body = HiddenFormOrAssertion \<and>
            getSAMLAssertion chainEnv body = ''PHNhbWw'') \<and>
   loopError (Wrap ''ConvergedSignIn failed''
                (Wrap ''failed to parse ConvergedSignIn response'' ConfigNotFound))"
  using loop_results [OF chain_run] loop_results [OF twoMarker_run] by simp

text \<open>
  Beside the claim: the MFA handler returns the very response it was given when the page
  offers no method and no skip URL, and the loop then never returns.
\<close>

lemma tfa_without_methods:
  assumes "unmarshalEmbeddedJSON e body = Inr conv"
      and "URLSkipMfaRegistration conv = ''''" and "ArrUserProofs conv = []"
  shows "processConvergedTFA e c res body creds = Some (Inr res, c)"
  using assms by (simp add: processConvergedTFA_def)

lemma tfa_without_methods_never_returns:
  assumes "rs_body res = Some body"
      and "\<not> contains body ''ConvergedSignIn''" and "contains body ''ConvergedTFA''"
      and "unmarshalEmbeddedJSON e body = Inr conv"
      and "URLSkipMfaRegistration conv = ''''" and "ArrUserProofs conv = []"
  shows "authenticateLoop e creds c res = None"
proof (cases "authenticateLoop e creds c res")
  case None
  then show ?thesis .
next
  case (Some y)
  have "\<not> (e = e \<and> res = res)"
  proof (rule authenticateLoop.raw_induct
      [where P = "\<lambda>e' creds' c' res' y. \<not> (e' = e \<and> res' = res)", OF _ Some], goal_cases)
    case (1 f e' creds' c' res' y)
    show ?case
    proof
      assume same: "e' = e \<and> res' = res"
      with 1(2) assms(1-3) have "f e creds' c' res = Some y"
        by (simp add: tfa_without_methods [OF assms(4-6)])
      with 1(1) show False by blast
    qed
  qed
  then show ?thesis by simp
qed

subsection \<open>The polling loop: retries\<close>

text \<open>
  A run of \<open>n\<close> retryable answers followed by a success, for attempts that need no
  prompt: the loop issues \<open>n + 1\<close> end-challenge requests and nothing else, sleeps
  \<open>n\<close> times, and returns the final answer, which \<open>processMFA\<close> hands to the
  completion post. Each sleep is \<open>sleepFor\<close> of the answer just received: the
  argument the code computes from the interval advertised for that answer's method id,
  or the default.
\<close>

lemma otpStep_codeAtHand:
  "codeAtHand creds r \<Longrightarrow>
     \<exists>q. otpStep e c creds (endAuthRequest r) = (Inr q, c) \<and>
         mq_AuthMethodID q = AuthMethodID r \<and> mq_Method q = ''EndAuth''"
  by (auto simp: codeAtHand_def otpStep_def endAuthRequest_def)

lemma mfaPollLoop_retries:
  assumes "url_parse_ok e (URLEndAuth conv)"
      and "codeAtHand creds mfaResp" and "\<forall>r\<in>set rs. codeAtHand creds r"
      and "\<forall>j\<le>length rs. \<exists>res b. responses e (length (sent c) + j) = Inr res \<and>
              rs_body res = Some b \<and> json_mfa e b = Some ((rs @ [final]) ! j)"
      and "\<forall>r\<in>set rs. Retry r \<and> \<not> Success r \<and> ErrCode r = 0"
      and "Success final" and "ErrCode final = 0"
  shows "\<exists>c' new. mfaPollLoop e creds conv c i mfaResp = Some (Inr final, c') \<and>
           sent c' = sent c @ new \<and> length new = length rs + 1 \<and>
           (\<forall>req\<in>set new. \<exists>q. rq_body req = MFABody q \<and> mq_Method q = ''EndAuth'') \<and>
           slept c' = slept c @ map (sleepFor conv) rs"
  using assms(2-5)
proof (induction rs arbitrary: c i mfaResp)
  case Nil
  from otpStep_codeAtHand [OF Nil(1), of e c]
  obtain q where q: "otpStep e c creds (endAuthRequest mfaResp) = (Inr q, c)"
    and qm: "mq_Method q = ''EndAuth''" by blast
  from Nil(3) obtain res b where
    r: "responses e (length (sent c)) = Inr res" "rs_body res = Some b" "json_mfa e b = Some final"
    by auto
  let ?c = "pushNotice c q i mfaResp"
  have tr: "sent ?c = sent c" "slept ?c = slept c"
    by (simp_all add: pushNotice_def)
  from processMFAEndAuth_answer [of e conv ?c res b final q] assms(1) r tr
  obtain c2 req where
    e: "processMFAEndAuth e ?c q conv = (Inr final, c2)"
    and s: "sent c2 = sent c @ [req]" "rq_body req = MFABody q" "slept c2 = slept c"
    by auto
  have "mfaPollLoop e creds conv c i mfaResp = Some (Inr final, c2)"
    by (subst mfaPollLoop.simps) (simp add: q e assms(6,7))
  with s qm show ?case
    by (intro exI [of _ c2] exI [of _ "[req]"]) simp
next
  case (Cons r rs)
  from otpStep_codeAtHand [OF Cons.prems(1), of e c]
  obtain q where q: "otpStep e c creds (endAuthRequest mfaResp) = (Inr q, c)"
    and qm: "mq_Method q = ''EndAuth''" by blast
  from Cons.prems(3) have "\<exists>res b. responses e (length (sent c) + 0) = Inr res \<and>
              rs_body res = Some b \<and> json_mfa e b = Some (((r # rs) @ [final]) ! 0)"
    by blast
  then obtain res b where
    r: "responses e (length (sent c)) = Inr res" "rs_body res = Some b" "json_mfa e b = Some r"
    by auto
  let ?c = "pushNotice c q i mfaResp"
  have tr: "sent ?c = sent c" "slept ?c = slept c"
    by (simp_all add: pushNotice_def)
  from processMFAEndAuth_answer [of e conv ?c res b r q] assms(1) r tr
  obtain c2 req where
    e: "processMFAEndAuth e ?c q conv = (Inr r, c2)"
    and s: "sent c2 = sent c @ [req]" "rq_body req = MFABody q" "slept c2 = slept c"
    by auto
  let ?c3 = "Sleep (sleepFor conv r) c2"
  have c3: "sent ?c3 = sent c @ [req]" "slept ?c3 = slept c @ [sleepFor conv r]"
    using s by (simp_all add: Sleep_def)
  have rr: "Retry r" "\<not> Success r" "ErrCode r = 0"
    using Cons.prems(4) by auto
  have step: "mfaPollLoop e creds conv c i mfaResp = mfaPollLoop e creds conv ?c3 (Suc i) r"
    by (subst mfaPollLoop.simps) (simp add: q e rr sleepFor_def split: option.splits)
  have p1: "codeAtHand creds r" and p2: "\<forall>x\<in>set rs. codeAtHand creds x"
    using Cons.prems(2) by auto
  have p3: "\<forall>j\<le>length rs. \<exists>res b. responses e (length (sent ?c3) + j) = Inr res \<and>
              rs_body res = Some b \<and> json_mfa e b = Some ((rs @ [final]) ! j)"
  proof (intro allI impI)
    fix j assume "j \<le> length rs"
    then have "Suc j \<le> length (r # rs)" by simp
    with Cons.prems(3) have "\<exists>res b. responses e (length (sent c) + Suc j) = Inr res \<and>
              rs_body res = Some b \<and> json_mfa e b = Some (((r # rs) @ [final]) ! Suc j)"
      by blast
    then show "\<exists>res b. responses e (length (sent ?c3) + j) = Inr res \<and>
              rs_body res = Some b \<and> json_mfa e b = Some ((rs @ [final]) ! j)"
      using c3(1) by simp
  qed
  have p4: "\<forall>x\<in>set rs. Retry x \<and> \<not> Success x \<and> ErrCode x = 0"
    using Cons.prems(4) by auto
  from Cons.IH [OF p1 p2 p3 p4, of "Suc i"]
  obtain c' new where
    l: "mfaPollLoop e creds conv ?c3 (Suc i) r = Some (Inr final, c')"
    and n: "sent c' = sent ?c3 @ new" "length new = length rs + 1"
    and b: "\<forall>req\<in>set new. \<exists>q. rq_body req = MFABody q \<and> mq_Method q = ''EndAuth''"
    and sl: "slept c' = slept ?c3 @ map (sleepFor conv) rs"
    by blast
  have "sent c' = sent c @ (req # new)" "length (req # new) = length (r # rs) + 1"
       "\<forall>x\<in>set (req # new). \<exists>q. rq_body x = MFABody q \<and> mq_Method q = ''EndAuth''"
       "slept c' = slept c @ map (sleepFor conv) (r # rs)"
    using n b sl c3 s(2) qm by simp_all
  with l step show ?case by metis
qed

lemma processMFA_completes:
  assumes "mfas \<noteq> []" and "processMFABeginAuth e c mfas conv = (Inr b, c1)"
      and "mfaPollLoop e creds conv c1 0 b = Some (Inr final, c2)" and "Success final"
  shows "processMFA e c mfas conv creds = Some (processMFAAuth e c2 final conv)"
  using assms by (simp add: processMFA_def)

text \<open>
  The sleep equals the advertised interval when that is a whole number of seconds (below
  the range of the 64-bit duration); the default is two seconds.
\<close>

lemma pollingSleep_whole_seconds:
  assumes "0 \<le> n" and "n < 9223372036"
  shows "pollingSleep (of_int n) = n * 1000000000"
proof -
  have "pollingSleep (of_int n) = sint (word_of_int n * 1000000000 :: 64 word)"
    using assms by (simp add: pollingSleep_def float64_to_int64_def truncate_float_def)
  also have "(word_of_int n * 1000000000 :: 64 word) = word_of_int (n * 1000000000)"
    by simp
  also have "sint (word_of_int (n * 1000000000) :: 64 word)
               = signed_take_bit (LENGTH(64) - 1) (n * 1000000000)"
    by (rule sint_sbintrunc')
  also have "\<dots> = n * 1000000000"
    using assms by (intro signed_take_bit_int_eq_self) simp_all
  finally show ?thesis .
qed

lemma pollingSleep_half: "pollingSleep (1 / 2) = 0"
  by (simp add: pollingSleep_def float64_to_int64_def truncate_float_def)

text \<open>
  An interval beyond the range of the 64-bit integer converts to the least 64-bit
  integer, and its product with the nanoseconds of a second wraps to zero.
\<close>

lemma pollingSleep_out_of_range: "pollingSleep 10000000000000000000 = 0"
proof -
  have "truncate_float 10000000000000000000 = 10000000000000000000"
    by (simp add: truncate_float_def)
  then have "float64_to_int64 10000000000000000000 = word_of_int (- (2 ^ 63))"
    by (simp add: float64_to_int64_def)
  moreover have "(word_of_int (- (2 ^ 63)) * 1000000000 :: 64 word) = 0"
    by simp
  ultimately show ?thesis
    by (simp add: pollingSleep_def)
qed

lemma defaultSleep_two_seconds: "defaultSleep = 2000000000"
  by (simp add: defaultSleep_def)

text \<open>
  Claim C4, evaluated where the advertised interval is half a second. The interval map
  gives 0.5 for the push method; one retryable answer is followed by a success. The loop
  issues its two end-challenge requests and returns the success, and the one sleep
  between them is of 0 nanoseconds, not of half a second: the conversion to the integer
  duration drops the fraction before the scaling to seconds.
\<close>

theorem poll_sleep_half_second:
  "OPerAuthPollingInterval halfSecondConfig (AuthMethodID pendingResponse) = Some (1 / 2) \<and>
   mfaPollLoop pollEnv alice halfSecondConfig newClient 0 beginResponse
     = Some (Inr approvedResponse,
             newClient\<lparr>sent := [endAuthPost (endAuthRequest beginResponse),
                                endAuthPost (endAuthRequest pendingResponse)],
                       slept := [0],
                       printed := [PhoneApprovalNumberMatch 42]\<rparr>)"
proof -
  have iv: "OPerAuthPollingInterval halfSecondConfig ''PhoneAppNotification'' = Some (1 / 2)"
    by (simp add: halfSecondConfig_def)
  have url: "URLEndAuth halfSecondConfig = ''https://login.example.com/common/SAS/EndAuth''"
    by (simp add: halfSecondConfig_def tfaConfig_def)
  have ok: "url_parse_ok pollEnv u" for u
    by (simp add: pollEnv_def silentEnv_def)
  have ua: "user_agent pollEnv = ''azure2aws/1.0 (linux amd64)''"
    by (simp add: pollEnv_def silentEnv_def)
  have nb: "pendingBody \<noteq> approvedBody"
    by (simp add: pendingBody_def approvedBody_def)
  have r0: "responses pollEnv 0 = Inr (page pendingBody)"
    and r1: "responses pollEnv (Suc 0) = Inr (page approvedBody)"
    by (simp_all add: pollEnv_def)
  have j0: "json_mfa pollEnv pendingBody = Some pendingResponse"
    and j1: "json_mfa pollEnv approvedBody = Some approvedResponse"
    using nb by (simp_all add: pollEnv_def)
  have flags: "Retry pendingResponse" "\<not> Success pendingResponse" "ErrCode pendingResponse = 0"
    "Success approvedResponse" "ErrCode approvedResponse = 0"
    by (simp_all add: pendingResponse_def approvedResponse_def zeroMFAResponse_def)
  have m0: "AuthMethodID beginResponse = ''PhoneAppNotification''" "Entropy beginResponse = 42"
    and m1: "AuthMethodID pendingResponse = ''PhoneAppNotification''"
    by (simp_all add: beginResponse_def pendingResponse_def zeroMFAResponse_def)
  have o0: "otpStep pollEnv c alice (endAuthRequest beginResponse)
              = (Inr (endAuthRequest beginResponse), c)"
    and o1: "otpStep pollEnv c alice (endAuthRequest pendingResponse)
              = (Inr (endAuthRequest pendingResponse), c)" for c
    by (simp_all add: otpStep_def endAuthRequest_def m0 m1 MFAPhoneAppOTP_def MFAOneWaySMS_def)
  have p0: "pushNotice c (endAuthRequest beginResponse) 0 beginResponse
              = c\<lparr>printed := printed c @ [PhoneApprovalNumberMatch 42]\<rparr>"
    and p1: "pushNotice c (endAuthRequest pendingResponse) (Suc 0) pendingResponse = c" for c
    by (simp_all add: pushNotice_def endAuthRequest_def m0 m1 MFAPhoneAppNotification_def)
  have e0: "processMFAEndAuth pollEnv c q halfSecondConfig
              = (Inr pendingResponse, c\<lparr>sent := [endAuthPost q]\<rparr>)" if "sent c = []" for c q
    using that
    by (simp add: processMFAEndAuth_def NewRequest_def ok url Do_def Let_def Header_Set_def ua r0
        page_def j0 endAuthPost_def)
  have e1: "processMFAEndAuth pollEnv c q halfSecondConfig
              = (Inr approvedResponse, c\<lparr>sent := [x, endAuthPost q]\<rparr>)" if "sent c = [x]" for c q x
    using that
    by (simp add: processMFAEndAuth_def NewRequest_def ok url Do_def Let_def Header_Set_def ua r1
        page_def j1 endAuthPost_def)
  have l1: "mfaPollLoop pollEnv alice halfSecondConfig
              (newClient\<lparr>sent := [endAuthPost (endAuthRequest beginResponse)], slept := [0],
                         printed := [PhoneApprovalNumberMatch 42]\<rparr>) (Suc 0) pendingResponse
     = Some (Inr approvedResponse,
             newClient\<lparr>sent := [endAuthPost (endAuthRequest beginResponse),
                                endAuthPost (endAuthRequest pendingResponse)],
                       slept := [0],
                       printed := [PhoneApprovalNumberMatch 42]\<rparr>)"
    by (subst mfaPollLoop.simps) (simp add: o1 p1 e1 flags)
  have l0: "mfaPollLoop pollEnv alice halfSecondConfig newClient 0 beginResponse
     = Some (Inr approvedResponse,
             newClient\<lparr>sent := [endAuthPost (endAuthRequest beginResponse),
                                endAuthPost (endAuthRequest pendingResponse)],
                       slept := [0],
                       printed := [PhoneApprovalNumberMatch 42]\<rparr>)"
    apply (subst mfaPollLoop.simps)
    apply (simp add: o0 p0 e0 newClient_def flags m1 iv pollingSleep_half Sleep_def)
    apply (simp add: l1 [unfolded newClient_def, simplified])
    done
  show ?thesis
    using l0 iv m1 by simp
qed

end
